theory Spec2Isabelle
  imports Main "HOL-Library.Word"
begin

section \<open>Configuration constants (config.h)\<close>

text \<open>
  The firmware targets the ESP32, where \<open>unsigned long\<close> is 32 bits wide and
  \<open>uint8_t\<close> is 8 bits wide; \<open>millis()\<close> differences wrap modulo \<open>2 ^ 32\<close>.
\<close>

type_synonym ulong = "32 word"
type_synonym uint8 = "8 word"

definition INITIAL_RETRY_DELAY_MS :: ulong where
  "INITIAL_RETRY_DELAY_MS = 15 * 1000"

definition MAX_RETRY_DELAY_MS :: ulong where
  "MAX_RETRY_DELAY_MS = 5 * 60 * 1000"

definition WIFI_RETRY_WHEN_GPRS_MS :: ulong where
  "WIFI_RETRY_WHEN_GPRS_MS = 15 * 60 * 1000"

definition MAX_WIFI_RETRY_WHEN_GPRS_MS :: ulong where
  "MAX_WIFI_RETRY_WHEN_GPRS_MS = 60 * 60 * 1000"

definition GPRS_ATTACH_TIMEOUT_MS :: ulong where
  "GPRS_ATTACH_TIMEOUT_MS = 60000"

definition GPRS_CONNECTION_CHECK_INTERVAL_MS :: ulong where
  "GPRS_CONNECTION_CHECK_INTERVAL_MS = 30000"

definition GPRS_RECONNECT_DELAY_INITIAL_MS :: ulong where
  "GPRS_RECONNECT_DELAY_INITIAL_MS = 15 * 1000"

definition GPRS_MODEM_ERROR_RESTART_DELAY_MS :: ulong where
  "GPRS_MODEM_ERROR_RESTART_DELAY_MS = 60000"

definition GPRS_MODEM_FAIL_RECOVERY_TIMEOUT_MS :: ulong where
  "GPRS_MODEM_FAIL_RECOVERY_TIMEOUT_MS = 5 * 60 * 1000"

definition MODEM_SERIAL_WAIT_TIMEOUT_MS :: ulong where
  "MODEM_SERIAL_WAIT_TIMEOUT_MS = 30000"

definition HTTP_RETRY_DELAY_MS :: ulong where
  "HTTP_RETRY_DELAY_MS = 5000"

definition GPRS_MAX_MODEM_RESETS :: uint8 where
  "GPRS_MAX_MODEM_RESETS = 3"

definition GPRS_MAX_ATTACH_FAILURES :: uint8 where
  "GPRS_MAX_ATTACH_FAILURES = 5"

definition GPRS_MAX_RECONNECT_ATTEMPTS :: uint8 where
  "GPRS_MAX_RECONNECT_ATTEMPTS = 5"

definition MAX_HTTP_RETRIES :: uint8 where
  "MAX_HTTP_RETRIES = 3"

definition API_URL_MAX_LEN :: nat where
  "API_URL_MAX_LEN = 257"

definition GPRS_MAX_HOST_LEN :: nat where
  "GPRS_MAX_HOST_LEN = API_URL_MAX_LEN"

definition GPRS_MAX_PATH_LEN :: nat where
  "GPRS_MAX_PATH_LEN = API_URL_MAX_LEN"

definition GPRS_HTTP_TOTAL_TIMEOUT_MS :: ulong where
  "GPRS_HTTP_TOTAL_TIMEOUT_MS = 60000"

definition GPRS_HTTP_CONNECT_TIMEOUT_MS :: ulong where
  "GPRS_HTTP_CONNECT_TIMEOUT_MS = 20000"

definition GPRS_HTTP_HEADER_TIMEOUT_MS :: ulong where
  "GPRS_HTTP_HEADER_TIMEOUT_MS = 20000"

definition GPRS_HTTP_BODY_TIMEOUT_MS :: ulong where
  "GPRS_HTTP_BODY_TIMEOUT_MS = 30000"

definition HTTP_RESPONSE_TIMEOUT_MS :: ulong where
  "HTTP_RESPONSE_TIMEOUT_MS = 20000"

definition GPRS_REQUEST_BUFFER_SIZE :: nat where
  "GPRS_REQUEST_BUFFER_SIZE = 512"

definition GPRS_MAX_HEADER_SIZE :: nat where
  "GPRS_MAX_HEADER_SIZE = 1024"

definition GPRS_BODY_BUFFER_SIZE :: nat where
  "GPRS_BODY_BUFFER_SIZE = 1024"

text \<open>
  The firmware name and version of the default build (\<open>GH_ID_FIRMWARE_DEFAULT\<close> is 1).
\<close>

definition FW_NAME :: string where
  "FW_NAME = ''GH1_FW''"

definition FW_VERSION :: string where
  "FW_VERSION = ''1.3.0_GH1''"

section \<open>HTTP retry classification\<close>

text \<open>
  \<open>WiFiManager::isRetryableError\<close> and \<open>GPRSManager::isRetryableError\<close>, each with the
  source's chain of early returns. The status code is a C \<open>int\<close>; only comparisons with
  constants are made, so no overflow can occur and the code is modelled on \<open>int\<close>.
\<close>

definition WiFiManager_isRetryableError :: "int \<Rightarrow> bool" where
  "WiFiManager_isRetryableError httpStatusCode =
     (if httpStatusCode \<le> 0 then True
      else if httpStatusCode = 408 then True
      else if httpStatusCode = 429 then True
      else if httpStatusCode \<ge> 500 \<and> httpStatusCode \<le> 599 then True
      else False)"

definition GPRSManager_isRetryableError :: "int \<Rightarrow> bool" where
  "GPRSManager_isRetryableError httpStatusCode =
     (if httpStatusCode \<le> 0 then True
      else if httpStatusCode = 408 then True
      else if httpStatusCode = 429 then True
      else if httpStatusCode \<ge> 500 \<and> httpStatusCode \<le> 599 then True
      else False)"

section \<open>Cellular connection FSM (GPRSManager, DeviceState.h)\<close>

datatype GPRSState =
    GPRS_STATE_INIT_START
  | GPRS_STATE_INIT_WAIT_SERIAL
  | GPRS_STATE_INIT_RESET_MODEM
  | GPRS_STATE_INIT_ATTACH_GPRS
  | GPRS_STATE_OPERATIONAL
  | GPRS_STATE_CONNECTION_LOST
  | GPRS_STATE_RECONNECTING
  | GPRS_STATE_ERROR_RESTART_MODEM
  | GPRS_STATE_ERROR_MODEM_FAIL
  | GPRS_STATE_DISABLED

datatype SimStatus = SIM_ERROR | SIM_READY | SIM_LOCKED | SIM_ANTITHEFT_LOCKED

text \<open>
  The fields of the shared \<open>DeviceState\<close> that \<open>GPRSManager\<close> writes through its
  \<open>_deviceState\<close> pointer. The manager holds \<open>None\<close> for a null pointer.
\<close>

record DeviceStateGprs =
  ds_currentGprsState :: GPRSState
  ds_lastGprsStateTransitionTime :: ulong
  ds_gprsSignalQuality :: int
  ds_isGprsConnected :: bool

text \<open>
  Commands sent to the modem whose effect stays inside the modem; they are recorded in
  the order they are issued.
\<close>

datatype ModemCmd = Modem_gprsDisconnect

text \<open>
  The member variables of \<open>GPRSManager\<close> that drive the connection FSM. The record is
  extended below with the members of the HTTP request FSM.
\<close>

record GPRSFsm =
  simPin :: string
  deviceState_ptr :: "DeviceStateGprs option"
  currentGprsState :: GPRSState
  lastGprsStateTransitionTime :: ulong
  gprsReconnectAttempt :: uint8
  modemResetCount :: uint8
  gprsAttachFailCount :: uint8
  modemCmds :: "ModemCmd list"

text \<open>
  What the modem answers during one poll of the FSM: the results of the TinyGSM calls
  the handlers make. \<open>hardReset_probe\<close> is the outcome of the bounded \<open>testAT\<close>
  polling loop of \<open>performModemHardReset\<close> (some probe answered within
  \<open>GPRS_MODEM_RESPONSE_TIMEOUT_MS\<close>); \<open>simStatus_first\<close> is the \<open>getSimStatus\<close>
  call made before unlocking, \<open>simStatus_check\<close> the one compared with
  \<open>SIM_READY\<close>; \<open>registrationOk\<close> says that \<open>getRegistrationStatus\<close> returned
  \<open>REG_OK_HOME\<close> or \<open>REG_OK_ROAMING\<close>. A query repeated within one poll
  (\<open>isNetworkConnected\<close> in \<open>handleGprsInitAttachGprs\<close>) gives the same answer both
  times, and every \<open>millis()\<close> call of a poll reads the same clock value \<open>now\<close>.
\<close>

record ModemObs =
  testAT :: bool
  restart :: bool
  hardReset_probe :: bool
  simStatus_first :: SimStatus
  simUnlock :: bool
  simStatus_check :: SimStatus
  isNetworkConnected :: bool
  isGprsConnected :: bool
  registrationOk :: bool
  gprsConnect :: bool
  getSignalQuality :: int

definition GPRSManager_isConnected :: "'a GPRSFsm_scheme \<Rightarrow> bool" where
  "GPRSManager_isConnected g = (currentGprsState g = GPRS_STATE_OPERATIONAL)"

text \<open>
  \<open>now\<close> is the value of \<open>millis()\<close>. The state handlers also stop the TCP client
  (\<open>_gprsClient.stop()\<close>), enable SSL on the modem, print debug output and write to
  the LCD; none of this touches the members modelled here.
\<close>

definition transitionToState :: "ulong \<Rightarrow> GPRSState \<Rightarrow> 'a GPRSFsm_scheme \<Rightarrow> 'a GPRSFsm_scheme" where
  "transitionToState now newState g =
     (if currentGprsState g \<noteq> newState then
        let g1 = g\<lparr>currentGprsState := newState, lastGprsStateTransitionTime := now\<rparr>;
            g2 = (if newState \<noteq> GPRS_STATE_RECONNECTING
                  then g1\<lparr>gprsReconnectAttempt := 0\<rparr> else g1);
            g3 = (if newState = GPRS_STATE_INIT_START
                  then g2\<lparr>modemResetCount := 0, gprsAttachFailCount := 0\<rparr> else g2)
        in (case deviceState_ptr g3 of
              None \<Rightarrow> g3
            | Some d \<Rightarrow>
                g3\<lparr>deviceState_ptr :=
                     Some (d\<lparr>ds_currentGprsState := currentGprsState g3,
                              ds_lastGprsStateTransitionTime := lastGprsStateTransitionTime g3\<rparr>)\<rparr>)
      else g)"

definition getElapsedTimeInCurrentGprsState :: "ulong \<Rightarrow> 'a GPRSFsm_scheme \<Rightarrow> ulong" where
  "getElapsedTimeInCurrentGprsState now g = now - lastGprsStateTransitionTime g"

definition GPRSManager_connect :: "ulong \<Rightarrow> 'a GPRSFsm_scheme \<Rightarrow> bool \<times> 'a GPRSFsm_scheme" where
  "GPRSManager_connect now g =
     (True, if currentGprsState g = GPRS_STATE_DISABLED
            then transitionToState now GPRS_STATE_INIT_START g else g)"

definition GPRSManager_disconnect :: "'a GPRSFsm_scheme \<Rightarrow> 'a GPRSFsm_scheme" where
  "GPRSManager_disconnect g = g\<lparr>modemCmds := modemCmds g @ [Modem_gprsDisconnect]\<rparr>"

definition checkModemSerial :: "ModemObs \<Rightarrow> bool" where
  "checkModemSerial obs = testAT obs"

definition performModemSoftReset :: "ModemObs \<Rightarrow> bool" where
  "performModemSoftReset obs = (if restart obs then checkModemSerial obs else False)"

definition performModemHardReset :: "ModemObs \<Rightarrow> bool" where
  "performModemHardReset obs = (if \<not> restart obs then hardReset_probe obs else True)"

definition handleGprsInitStart :: "ulong \<Rightarrow> ModemObs \<Rightarrow> 'a GPRSFsm_scheme \<Rightarrow> 'a GPRSFsm_scheme" where
  "handleGprsInitStart now obs g =
     (let g1 = g\<lparr>modemResetCount := 0, gprsAttachFailCount := 0\<rparr>
      in if \<not> checkModemSerial obs
         then transitionToState now GPRS_STATE_INIT_WAIT_SERIAL g1
         else transitionToState now GPRS_STATE_INIT_RESET_MODEM g1)"

definition handleGprsInitWaitSerial :: "ulong \<Rightarrow> ModemObs \<Rightarrow> 'a GPRSFsm_scheme \<Rightarrow> 'a GPRSFsm_scheme" where
  "handleGprsInitWaitSerial now obs g =
     (if checkModemSerial obs then transitionToState now GPRS_STATE_INIT_RESET_MODEM g
      else if getElapsedTimeInCurrentGprsState now g > MODEM_SERIAL_WAIT_TIMEOUT_MS
      then transitionToState now GPRS_STATE_ERROR_RESTART_MODEM g
      else g)"

definition handleGprsInitResetModem :: "ulong \<Rightarrow> ModemObs \<Rightarrow> 'a GPRSFsm_scheme \<Rightarrow> 'a GPRSFsm_scheme" where
  "handleGprsInitResetModem now obs g =
     (let resetOk = (if modemResetCount g = 0 then performModemSoftReset obs
                     else performModemHardReset obs)
      in if resetOk then
           (let g1 = g\<lparr>modemResetCount := 0\<rparr>
            in if simPin g1 \<noteq> [] \<and> simStatus_first obs = SIM_LOCKED \<and> \<not> simUnlock obs
               then transitionToState now GPRS_STATE_ERROR_RESTART_MODEM g1
               else if simStatus_check obs \<noteq> SIM_READY then
                 (let g2 = g1\<lparr>modemResetCount := modemResetCount g1 + 1\<rparr>
                  in if modemResetCount g2 \<ge> GPRS_MAX_MODEM_RESETS
                     then transitionToState now GPRS_STATE_ERROR_MODEM_FAIL g2
                     else transitionToState now GPRS_STATE_ERROR_RESTART_MODEM g2)
               else transitionToState now GPRS_STATE_INIT_ATTACH_GPRS g1)
         else
           (let g1 = g\<lparr>modemResetCount := modemResetCount g + 1\<rparr>
            in if modemResetCount g1 \<ge> GPRS_MAX_MODEM_RESETS
               then transitionToState now GPRS_STATE_ERROR_MODEM_FAIL g1
               else transitionToState now GPRS_STATE_ERROR_RESTART_MODEM g1))"

definition handleGprsInitAttachGprs :: "ulong \<Rightarrow> ModemObs \<Rightarrow> 'a GPRSFsm_scheme \<Rightarrow> 'a GPRSFsm_scheme" where
  "handleGprsInitAttachGprs now obs g =
     (if isNetworkConnected obs \<and> isGprsConnected obs then
        transitionToState now GPRS_STATE_OPERATIONAL (g\<lparr>gprsAttachFailCount := 0\<rparr>)
      else if \<not> isNetworkConnected obs \<and> \<not> registrationOk obs then
        (if getElapsedTimeInCurrentGprsState now g > GPRS_ATTACH_TIMEOUT_MS then
           (let g1 = g\<lparr>gprsAttachFailCount := gprsAttachFailCount g + 1\<rparr>
            in if gprsAttachFailCount g1 > GPRS_MAX_ATTACH_FAILURES
               then transitionToState now GPRS_STATE_ERROR_RESTART_MODEM g1
               else g1\<lparr>lastGprsStateTransitionTime := now\<rparr>)
         else g)
      else if gprsConnect obs then
        transitionToState now GPRS_STATE_OPERATIONAL (g\<lparr>gprsAttachFailCount := 0\<rparr>)
      else
        (let g1 = g\<lparr>gprsAttachFailCount := gprsAttachFailCount g + 1\<rparr>
         in if gprsAttachFailCount g1 \<ge> GPRS_MAX_ATTACH_FAILURES
            then transitionToState now GPRS_STATE_ERROR_RESTART_MODEM g1
            else g1\<lparr>lastGprsStateTransitionTime := now\<rparr>))"

definition handleGprsOperational :: "ulong \<Rightarrow> ModemObs \<Rightarrow> 'a GPRSFsm_scheme \<Rightarrow> 'a GPRSFsm_scheme" where
  "handleGprsOperational now obs g =
     (if getElapsedTimeInCurrentGprsState now g > GPRS_CONNECTION_CHECK_INTERVAL_MS then
        (let g1 = g\<lparr>lastGprsStateTransitionTime := now\<rparr>
         in if \<not> isGprsConnected obs then transitionToState now GPRS_STATE_CONNECTION_LOST g1
            else if \<not> isNetworkConnected obs then transitionToState now GPRS_STATE_CONNECTION_LOST g1
            else g1)
      else g)"

definition handleGprsConnectionLost :: "ulong \<Rightarrow> 'a GPRSFsm_scheme \<Rightarrow> 'a GPRSFsm_scheme" where
  "handleGprsConnectionLost now g =
     transitionToState now GPRS_STATE_RECONNECTING (g\<lparr>gprsReconnectAttempt := 0\<rparr>)"

definition handleGprsReconnecting :: "ulong \<Rightarrow> 'a GPRSFsm_scheme \<Rightarrow> 'a GPRSFsm_scheme" where
  "handleGprsReconnecting now g =
     (if gprsReconnectAttempt g < GPRS_MAX_RECONNECT_ATTEMPTS then
        (if getElapsedTimeInCurrentGprsState now g > GPRS_RECONNECT_DELAY_INITIAL_MS
         then transitionToState now GPRS_STATE_INIT_ATTACH_GPRS
                (g\<lparr>gprsReconnectAttempt := gprsReconnectAttempt g + 1\<rparr>)
         else g)
      else transitionToState now GPRS_STATE_ERROR_RESTART_MODEM g)"

definition handleGprsErrorRestartModem :: "ulong \<Rightarrow> 'a GPRSFsm_scheme \<Rightarrow> 'a GPRSFsm_scheme" where
  "handleGprsErrorRestartModem now g =
     (if getElapsedTimeInCurrentGprsState now g < GPRS_MODEM_ERROR_RESTART_DELAY_MS then g
      else transitionToState now GPRS_STATE_INIT_RESET_MODEM g)"

definition handleGprsErrorModemFail :: "ulong \<Rightarrow> 'a GPRSFsm_scheme \<Rightarrow> 'a GPRSFsm_scheme" where
  "handleGprsErrorModemFail now g =
     (if getElapsedTimeInCurrentGprsState now g > GPRS_MODEM_FAIL_RECOVERY_TIMEOUT_MS
      then transitionToState now GPRS_STATE_DISABLED g
      else g)"

definition updateFSM :: "ulong \<Rightarrow> ModemObs \<Rightarrow> 'a GPRSFsm_scheme \<Rightarrow> 'a GPRSFsm_scheme" where
  "updateFSM now obs g =
     (let g0 = (case deviceState_ptr g of
                  None \<Rightarrow> g
                | Some d \<Rightarrow>
                    g\<lparr>deviceState_ptr :=
                        Some (d\<lparr>ds_gprsSignalQuality := getSignalQuality obs,
                                 ds_isGprsConnected := GPRSManager_isConnected g\<rparr>)\<rparr>)
      in case currentGprsState g0 of
           GPRS_STATE_DISABLED \<Rightarrow> g0
         | GPRS_STATE_INIT_START \<Rightarrow> handleGprsInitStart now obs g0
         | GPRS_STATE_INIT_WAIT_SERIAL \<Rightarrow> handleGprsInitWaitSerial now obs g0
         | GPRS_STATE_INIT_RESET_MODEM \<Rightarrow> handleGprsInitResetModem now obs g0
         | GPRS_STATE_INIT_ATTACH_GPRS \<Rightarrow> handleGprsInitAttachGprs now obs g0
         | GPRS_STATE_OPERATIONAL \<Rightarrow> handleGprsOperational now obs g0
         | GPRS_STATE_CONNECTION_LOST \<Rightarrow> handleGprsConnectionLost now g0
         | GPRS_STATE_RECONNECTING \<Rightarrow> handleGprsReconnecting now g0
         | GPRS_STATE_ERROR_RESTART_MODEM \<Rightarrow> handleGprsErrorRestartModem now g0
         | GPRS_STATE_ERROR_MODEM_FAIL \<Rightarrow> handleGprsErrorModemFail now g0)"

text \<open>
  A run of the FSM: one poll per element of the list, each with its own clock reading
  and modem answers, as the main loop calls \<open>updateFSM\<close> once per iteration.
\<close>

fun updateFSM_polls :: "(ulong \<times> ModemObs) list \<Rightarrow> 'a GPRSFsm_scheme \<Rightarrow> 'a GPRSFsm_scheme" where
  "updateFSM_polls [] g = g"
| "updateFSM_polls ((now, obs) # ps) g = updateFSM_polls ps (updateFSM now obs g)"

section \<open>HTTP request FSMs of the two transports\<close>

text \<open>
  The parsed response document (\<open>JsonDocument\<close>) is a type parameter \<open>'j\<close>, and
  ArduinoJson's \<open>deserializeJson\<close> is a parameter of the functions that call it: it
  yields \<open>None\<close> on a \<open>DeserializationError\<close>. A completion callback
  \<open>std::function<bool(JsonDocument&)>\<close> is a function \<open>'j \<Rightarrow> bool\<close>, \<open>None\<close> when
  the \<open>std::function\<close> is empty; every invocation is recorded, with its argument, in
  the \<open>cbLog\<close> field of the manager that made it.
\<close>

datatype WiFiHttpState =
    WiFi_IDLE
  | WiFi_BEGIN_REQUEST
  | WiFi_SENDING_REQUEST
  | WiFi_PROCESSING_RESPONSE
  | WiFi_RETRY_WAIT
  | WiFi_COMPLETE
  | WiFi_ERROR

datatype GPRSHttpState =
    GPRS_IDLE
  | GPRS_CLIENT_CONNECT
  | GPRS_SENDING_REQUEST
  | GPRS_HEADERS_RECEIVING
  | GPRS_BODY_RECEIVING
  | GPRS_PROCESSING_RESPONSE
  | GPRS_COMPLETE
  | GPRS_RETRY_WAIT
  | GPRS_ERROR

subsection \<open>WiFiManager\<close>

text \<open>
  \<open>WiFi_connected\<close> is the radio's state as \<open>WiFi.status() == WL_CONNECTED\<close>
  reports it.
\<close>

record 'j WiFiManager =
  w_ssid :: string
  w_authToken :: string
  WiFi_connected :: bool
  w_currentHttpState :: WiFiHttpState
  w_asyncUrl :: string
  w_asyncMethod :: string
  w_asyncApiType :: string
  w_asyncPayload :: string
  w_asyncCb :: "('j \<Rightarrow> bool) option"
  w_asyncNeedsAuth :: bool
  w_asyncRequestStartTime :: ulong
  w_asyncOperationActive :: bool
  w_httpStatusCode :: int
  w_httpRetries :: uint8
  w_jsonDoc :: "'j option"
  w_cbLog :: "'j list"

definition MAX_CONNECT_RETRIES :: nat where
  "MAX_CONNECT_RETRIES = 2"

text \<open>
  The retry loop of \<open>connectWiFi\<close>. \<open>att n\<close> says whether association attempt
  number \<open>n\<close> reaches \<open>WL_CONNECTED\<close> within its 20 s window. Every attempt starts
  with \<open>WiFi.disconnect(true)\<close>, and a failed one ends with it.
\<close>

function connectWiFi_loop :: "(nat \<Rightarrow> bool) \<Rightarrow> nat \<Rightarrow> 'j WiFiManager \<Rightarrow> bool \<times> 'j WiFiManager" where
  "connectWiFi_loop att attempt w =
     (if attempt \<le> MAX_CONNECT_RETRIES then
        (if att attempt then (True, w\<lparr>WiFi_connected := True\<rparr>)
         else connectWiFi_loop att (attempt + 1) (w\<lparr>WiFi_connected := False\<rparr>))
      else (False, w))"
  by pat_completeness auto
termination
  by (relation "measure (\<lambda>(att, attempt, w). Suc MAX_CONNECT_RETRIES - attempt)") auto

declare connectWiFi_loop.simps [simp del]

definition connectWiFi :: "(nat \<Rightarrow> bool) \<Rightarrow> 'j WiFiManager \<Rightarrow> bool \<times> 'j WiFiManager" where
  "connectWiFi att w = (if w_ssid w = [] then (False, w) else connectWiFi_loop att 0 w)"

definition WiFiManager_connect :: "(nat \<Rightarrow> bool) \<Rightarrow> 'j WiFiManager \<Rightarrow> bool \<times> 'j WiFiManager" where
  "WiFiManager_connect att w = connectWiFi att w"

definition WiFiManager_disconnect :: "'j WiFiManager \<Rightarrow> 'j WiFiManager" where
  "WiFiManager_disconnect w = w\<lparr>WiFi_connected := False\<rparr>"

definition WiFiManager_isConnected :: "'j WiFiManager \<Rightarrow> bool" where
  "WiFiManager_isConnected w = WiFi_connected w"

text \<open>
  \<open>payload\<close> may be a null pointer and \<open>cb\<close> an empty \<open>std::function\<close>: both are
  options. \<open>now\<close> is \<open>millis()\<close>.
\<close>

definition WiFiManager_startAsyncHttpRequest ::
  "ulong \<Rightarrow> string \<Rightarrow> string \<Rightarrow> string \<Rightarrow> string option \<Rightarrow> ('j \<Rightarrow> bool) option \<Rightarrow> bool
   \<Rightarrow> 'j WiFiManager \<Rightarrow> bool \<times> 'j WiFiManager" where
  "WiFiManager_startAsyncHttpRequest now url method apiType payload cb needsAuth w =
     (if w_asyncOperationActive w then (False, w)
      else if \<not> WiFiManager_isConnected w then (False, w)
      else (True,
            w\<lparr>w_asyncUrl := url,
              w_asyncMethod := method,
              w_asyncApiType := apiType,
              w_asyncPayload := (case payload of Some p \<Rightarrow> p | None \<Rightarrow> []),
              w_asyncCb := cb,
              w_asyncNeedsAuth := needsAuth,
              w_asyncRequestStartTime := now,
              w_asyncOperationActive := True,
              w_httpStatusCode := 0,
              w_httpRetries := 0,
              w_jsonDoc := None,
              w_currentHttpState := WiFi_BEGIN_REQUEST\<rparr>))"

text \<open>
  What the ESP32 \<open>HTTPClient\<close> answers during one poll: whether \<open>begin\<close> succeeds, the
  code \<open>GET()\<close> or \<open>POST()\<close> returns, and the body \<open>getString()\<close> returns.
\<close>

record HttpClientObs =
  http_begin :: bool
  http_send :: int
  http_getString :: string

text \<open>The body of \<open>case WiFiHttpState::PROCESSING_RESPONSE\<close>.\<close>

definition WiFiManager_PROCESSING_RESPONSE ::
  "(string \<Rightarrow> 'j option) \<Rightarrow> HttpClientObs \<Rightarrow> 'j WiFiManager \<Rightarrow> 'j WiFiManager" where
  "WiFiManager_PROCESSING_RESPONSE deserializeJson obs w =
     (let (cbOk, w1) =
        (if w_httpStatusCode w \<ge> 200 \<and> w_httpStatusCode w < 300 then
           (case w_asyncCb w of
              Some cb \<Rightarrow>
                (case deserializeJson (http_getString obs) of
                   None \<Rightarrow> (False, w\<lparr>w_jsonDoc := None\<rparr>)
                 | Some doc \<Rightarrow> (cb doc, w\<lparr>w_jsonDoc := Some doc, w_cbLog := w_cbLog w @ [doc]\<rparr>))
            | None \<Rightarrow> (True, w))
         else (False, w))
      in w1\<lparr>w_currentHttpState := (if cbOk then WiFi_COMPLETE else WiFi_ERROR)\<rparr>)"

text \<open>The body of \<open>case WiFiHttpState::ERROR\<close>.\<close>

definition WiFiManager_ERROR :: "ulong \<Rightarrow> 'j WiFiManager \<Rightarrow> 'j WiFiManager" where
  "WiFiManager_ERROR now w =
     (if WiFiManager_isRetryableError (w_httpStatusCode w) \<and> w_httpRetries w < MAX_HTTP_RETRIES
      then w\<lparr>w_httpRetries := w_httpRetries w + 1,
             w_asyncRequestStartTime := now + HTTP_RETRY_DELAY_MS,
             w_currentHttpState := WiFi_RETRY_WAIT\<rparr>
      else w\<lparr>w_asyncOperationActive := False, w_currentHttpState := WiFi_IDLE\<rparr>)"

definition WiFiManager_updateHttpOperations ::
  "(string \<Rightarrow> 'j option) \<Rightarrow> ulong \<Rightarrow> HttpClientObs \<Rightarrow> 'j WiFiManager \<Rightarrow> 'j WiFiManager" where
  "WiFiManager_updateHttpOperations deserializeJson now obs w =
     (if \<not> w_asyncOperationActive w then w
      else
        (let w0 = (if now - w_asyncRequestStartTime w > 30000
                   then w\<lparr>w_currentHttpState := WiFi_ERROR\<rparr> else w)
         in case w_currentHttpState w0 of
              WiFi_IDLE \<Rightarrow> w0\<lparr>w_asyncOperationActive := False\<rparr>
            | WiFi_BEGIN_REQUEST \<Rightarrow>
                (if http_begin obs then w0\<lparr>w_currentHttpState := WiFi_SENDING_REQUEST\<rparr>
                 else w0\<lparr>w_currentHttpState := WiFi_ERROR\<rparr>)
            | WiFi_SENDING_REQUEST \<Rightarrow>
                (if w_asyncMethod w0 = ''GET'' \<or> w_asyncMethod w0 = ''POST'' then
                   (let w1 = w0\<lparr>w_httpStatusCode := http_send obs\<rparr>
                    in if w_httpStatusCode w1 > 0
                       then w1\<lparr>w_currentHttpState := WiFi_PROCESSING_RESPONSE\<rparr>
                       else if w_httpStatusCode w1 < 0
                       then w1\<lparr>w_currentHttpState := WiFi_ERROR\<rparr>
                       else w1)
                 else w0\<lparr>w_currentHttpState := WiFi_ERROR\<rparr>)
            | WiFi_PROCESSING_RESPONSE \<Rightarrow> WiFiManager_PROCESSING_RESPONSE deserializeJson obs w0
            | WiFi_RETRY_WAIT \<Rightarrow>
                (if now \<ge> w_asyncRequestStartTime w0
                 then w0\<lparr>w_httpStatusCode := 0,
                         w_jsonDoc := None,
                         w_asyncRequestStartTime := now,
                         w_currentHttpState := WiFi_BEGIN_REQUEST\<rparr>
                 else w0)
            | WiFi_COMPLETE \<Rightarrow>
                w0\<lparr>w_asyncOperationActive := False, w_currentHttpState := WiFi_IDLE\<rparr>
            | WiFi_ERROR \<Rightarrow> WiFiManager_ERROR now w0))"

subsection \<open>GPRSManager\<close>

text \<open>
  \<open>g_authToken\<close> is the member \<open>_authToken\<close>.
\<close>

record 'j GPRSManager = GPRSFsm +
  g_authToken :: string
  g_currentHttpState :: GPRSHttpState
  g_asyncUrl :: string
  g_asyncMethod :: string
  g_asyncApiType :: string
  g_asyncPayload :: string
  g_asyncCb :: "('j \<Rightarrow> bool) option"
  g_asyncNeedsAuth :: bool
  g_asyncRequestStartTime :: ulong
  g_asyncOperationActive :: bool
  g_httpRetries :: uint8
  gprsHost :: string
  gprsPath :: string
  gprsPort :: int
  gprsResponseBuffer :: string
  gprsHttpStatusCode :: int
  gprsContentLength :: ulong
  gprsChunkedEncoding :: bool
  gprsBodyBytesRead :: ulong
  g_jsonDoc :: "'j option"
  g_cbLog :: "'j list"

text \<open>
  C string searches. A pointer into a string is the index it points at; a null result
  is \<open>None\<close>.
\<close>

fun strstr :: "string \<Rightarrow> string \<Rightarrow> nat option" where
  "strstr [] needle = (if needle = [] then Some 0 else None)"
| "strstr (c # cs) needle =
     (if take (length needle) (c # cs) = needle then Some 0
      else map_option Suc (strstr cs needle))"

fun strchr :: "string \<Rightarrow> char \<Rightarrow> nat option" where
  "strchr [] ch = None"
| "strchr (c # cs) ch = (if c = ch then Some 0 else map_option Suc (strchr cs ch))"

definition isspace :: "char \<Rightarrow> bool" where
  "isspace c = (c \<in> set [CHR '' '', CHR 0x09, CHR 0x0A, CHR 0x0B, CHR 0x0C, CHR 0x0D])"

text \<open>
  \<open>strtol\<close> as the C library of the ESP32 toolchain implements it: leading white
  space, an optional sign, for base 16 an optional \<open>0x\<close>, then the longest run of
  digits of the base; no digits give 0, and a value that does not fit \<open>long\<close> (32
  bits on this target, like \<open>int\<close>) gives \<open>LONG_MAX\<close> or \<open>LONG_MIN\<close>. \<open>atoi\<close>,
  \<open>atol\<close> and \<open>String::toInt\<close> are \<open>strtol\<close> with base 10.
\<close>

definition LONG_MAX :: int where
  "LONG_MAX = 2147483647"

definition LONG_MIN :: int where
  "LONG_MIN = - 2147483648"

definition digit_value :: "char \<Rightarrow> nat option" where
  "digit_value c =
     (let n = (of_char c :: nat)
      in if 48 \<le> n \<and> n \<le> 57 then Some (n - 48)
         else if 97 \<le> n \<and> n \<le> 122 then Some (n - 87)
         else if 65 \<le> n \<and> n \<le> 90 then Some (n - 55)
         else None)"

fun strtol_digits :: "nat \<Rightarrow> int \<Rightarrow> string \<Rightarrow> int" where
  "strtol_digits base acc [] = acc"
| "strtol_digits base acc (c # cs) =
     (case digit_value c of
        Some d \<Rightarrow> if d < base then strtol_digits base (acc * int base + int d) cs else acc
      | None \<Rightarrow> acc)"

definition strtol :: "string \<Rightarrow> nat \<Rightarrow> int" where
  "strtol s base =
     (let t = dropWhile isspace s;
          neg = (t \<noteq> [] \<and> hd t = CHR ''-'');
          u = (if t \<noteq> [] \<and> (hd t = CHR ''-'' \<or> hd t = CHR ''+'') then tl t else t);
          v = (if base = 16 \<and> (take 2 u = ''0x'' \<or> take 2 u = ''0X'')
               then strtol_digits 16 0 (drop 2 u)
               else strtol_digits base 0 u)
      in if neg then max (- v) LONG_MIN else min v LONG_MAX)"

definition atoi :: "string \<Rightarrow> int" where
  "atoi s = strtol s 10"

definition GPRSManager_startAsyncHttpRequest ::
  "ulong \<Rightarrow> string \<Rightarrow> string \<Rightarrow> string \<Rightarrow> string option \<Rightarrow> ('j \<Rightarrow> bool) option \<Rightarrow> bool
   \<Rightarrow> 'j GPRSManager \<Rightarrow> bool \<times> 'j GPRSManager" where
  "GPRSManager_startAsyncHttpRequest now url method apiType payload cb needsAuth g =
     (if g_asyncOperationActive g then (False, g)
      else if \<not> GPRSManager_isConnected g then (False, g)
      else
        (case strstr url ''://'' of
           None \<Rightarrow> (False, g)
         | Some protocol_end \<Rightarrow>
             (let host_start = drop (protocol_end + 3) url;
                  path_start_ptr = strchr host_start CHR ''/'';
                  port_colon_ptr = strchr host_start CHR '':'';
                  host_end0 = (case path_start_ptr of Some i \<Rightarrow> i | None \<Rightarrow> length host_start);
                  host_end = (case port_colon_ptr of
                                Some j \<Rightarrow> if j < host_end0 then j else host_end0
                              | None \<Rightarrow> host_end0);
                  host_len = host_end
              in if host_len \<ge> GPRS_MAX_HOST_LEN then (False, g)
                 else
                   (let g1 = g\<lparr>gprsHost := take host_len host_start\<rparr>;
                        path = (case path_start_ptr of
                                  Some i \<Rightarrow> drop i host_start
                                | None \<Rightarrow> ''/'')
                    in if path_start_ptr \<noteq> None \<and> length path \<ge> GPRS_MAX_PATH_LEN
                       then (False, g1)
                       else
                         (let g2 = g1\<lparr>gprsPath := path\<rparr>;
                              port =
                                (case port_colon_ptr of
                                   Some j \<Rightarrow>
                                     (if (case path_start_ptr of None \<Rightarrow> True | Some i \<Rightarrow> j < i)
                                      then atoi (drop (j + 1) host_start)
                                      else if take 5 url = ''https'' then 443 else 80)
                                 | None \<Rightarrow> if take 5 url = ''https'' then 443 else 80)
                          in (True,
                              g2\<lparr>gprsPort := port,
                                 g_asyncUrl := url,
                                 g_asyncMethod := method,
                                 g_asyncApiType := apiType,
                                 g_asyncPayload := (case payload of Some p \<Rightarrow> p | None \<Rightarrow> []),
                                 g_asyncCb := cb,
                                 g_asyncNeedsAuth := needsAuth,
                                 g_asyncRequestStartTime := now,
                                 g_asyncOperationActive := True,
                                 g_httpRetries := 0,
                                 gprsResponseBuffer := [],
                                 gprsHttpStatusCode := 0,
                                 gprsContentLength := 0,
                                 gprsChunkedEncoding := False,
                                 gprsBodyBytesRead := 0,
                                 g_jsonDoc := None,
                                 g_currentHttpState := GPRS_CLIENT_CONNECT\<rparr>))))))"

text \<open>
  What the TinyGSM TCP client answers during one poll of the HTTP FSM:
  \<open>client_connected\<close> is \<open>_gprsClient.connected()\<close> as asked on entry to a state,
  \<open>client_connected_late\<close> the same query after the bytes of this poll have been
  read (all later queries of the poll give that answer, unless the poll has called
  \<open>stop()\<close>, after which the client is not connected); \<open>client_connect\<close> is the
  result of \<open>connect(host, port)\<close>, \<open>client_write\<close> the number of bytes \<open>write\<close>
  reports as sent, and \<open>client_incoming\<close> the bytes \<open>read()\<close> delivers for as long
  as \<open>available()\<close> holds.
\<close>

record GprsClientObs =
  client_connected :: bool
  client_connected_late :: bool
  client_connect :: bool
  client_write :: nat
  client_incoming :: string

text \<open>
  The operations of the Arduino \<open>String\<close> class the response parser uses, on the
  sequence of characters the \<open>String\<close> holds. An index is an \<open>int\<close>, \<open>-1\<close> for not
  found; an \<open>int\<close> passed for an \<open>unsigned int\<close> parameter, or compared with an
  unsigned value, is converted by \<open>as_unsigned\<close>. \<open>indexOf\<close> gives \<open>-1\<close> when the
  start index is not below the length; \<open>substring\<close> swaps its bounds when the left
  one is the larger, gives the empty string when the left bound is not below the
  length, and cuts the right bound down to the length. The searches of the real class
  are C string searches and stop at a NUL byte stored in the \<open>String\<close>; these
  definitions search the whole sequence.
\<close>

definition CRLF :: string where
  "CRLF = [CHR 0x0D, CHR 0x0A]"

definition as_unsigned :: "int \<Rightarrow> nat" where
  "as_unsigned x = nat (x mod 2 ^ 32)"

definition String_indexOf :: "string \<Rightarrow> string \<Rightarrow> nat \<Rightarrow> int" where
  "String_indexOf s needle fromIndex =
     (if fromIndex \<ge> length s then - 1
      else case strstr (drop fromIndex s) needle of
             None \<Rightarrow> - 1
           | Some i \<Rightarrow> int (fromIndex + i))"

definition String_indexOf_char :: "string \<Rightarrow> char \<Rightarrow> nat \<Rightarrow> int" where
  "String_indexOf_char s ch fromIndex =
     (if fromIndex \<ge> length s then - 1
      else case strchr (drop fromIndex s) ch of
             None \<Rightarrow> - 1
           | Some i \<Rightarrow> int (fromIndex + i))"

definition String_substring :: "string \<Rightarrow> nat \<Rightarrow> nat \<Rightarrow> string" where
  "String_substring s left right =
     (let l = (if left > right then right else left);
          r = (if left > right then left else right)
      in if l \<ge> length s then []
         else take ((if r > length s then length s else r) - l) (drop l s))"

definition String_endsWith :: "string \<Rightarrow> string \<Rightarrow> bool" where
  "String_endsWith s s2 =
     (if length s < length s2 then False
      else drop (length s - length s2) s = s2)"

definition tolower :: "char \<Rightarrow> char" where
  "tolower c =
     (if 65 \<le> (of_char c :: nat) \<and> (of_char c :: nat) \<le> 90
      then char_of ((of_char c :: nat) + 32) else c)"

definition String_toLowerCase :: "string \<Rightarrow> string" where
  "String_toLowerCase s = map tolower s"

definition String_toInt :: "string \<Rightarrow> int" where
  "String_toInt s = strtol s 10"

text \<open>The decimal digits \<open>%d\<close> prints for a non-negative number.\<close>

fun decimal :: "nat \<Rightarrow> string" where
  "decimal n =
     (if n < 10 then [char_of (48 + n)]
      else decimal (n div 10) @ [char_of (48 + n mod 10)])"

declare decimal.simps [simp del]

text \<open>The body of \<open>case GPRSHttpState::CLIENT_CONNECT\<close>.\<close>

definition GPRSManager_CLIENT_CONNECT ::
  "ulong \<Rightarrow> GprsClientObs \<Rightarrow> 'j GPRSManager \<Rightarrow> 'j GPRSManager" where
  "GPRSManager_CLIENT_CONNECT now obs g =
     (if now - g_asyncRequestStartTime g > GPRS_HTTP_CONNECT_TIMEOUT_MS
      then g\<lparr>g_currentHttpState := GPRS_ERROR\<rparr>
      else if client_connect obs
      then g\<lparr>g_currentHttpState := GPRS_SENDING_REQUEST, g_asyncRequestStartTime := now\<rparr>
      else
        (let g1 = (if currentGprsState g = GPRS_STATE_OPERATIONAL
                   then transitionToState now GPRS_STATE_CONNECTION_LOST g else g)
         in g1\<lparr>g_currentHttpState := GPRS_ERROR\<rparr>))"

text \<open>
  The request line and header lines that \<open>case GPRSHttpState::SENDING_REQUEST\<close>
  prints into \<open>requestBuffer\<close>; \<open>offset\<close> is the sum of the lengths \<open>snprintf\<close>
  returns, which is the length of this text whether or not it fitted the buffer. The
  firmware name and version are cut to the 31 characters of their RAM copies.
\<close>

definition request_headers :: "'j GPRSManager \<Rightarrow> string" where
  "request_headers g =
     g_asyncMethod g @ '' '' @ gprsPath g @ '' HTTP/1.1'' @ CRLF
     @ ''Host: '' @ gprsHost g @ CRLF
     @ (if g_asyncNeedsAuth g \<and> length (g_authToken g) > 0
        then ''Authorization: Bearer '' @ g_authToken g @ CRLF else [])
     @ ''User-Agent: '' @ take 31 FW_NAME @ ''/'' @ take 31 FW_VERSION @ CRLF
     @ (if length (g_asyncPayload g) > 0
        then ''Content-Type: application/json'' @ CRLF
             @ ''Content-Length: '' @ decimal (length (g_asyncPayload g)) @ CRLF
        else [])
     @ ''Connection: close'' @ CRLF @ CRLF"

definition GPRSManager_SENDING_REQUEST ::
  "ulong \<Rightarrow> GprsClientObs \<Rightarrow> 'j GPRSManager \<Rightarrow> 'j GPRSManager" where
  "GPRSManager_SENDING_REQUEST now obs g =
     (if now - g_asyncRequestStartTime g > HTTP_RESPONSE_TIMEOUT_MS
      then g\<lparr>g_currentHttpState := GPRS_ERROR\<rparr>
      else
        (let offset = length (request_headers g)
         in if offset \<ge> GPRS_REQUEST_BUFFER_SIZE
            then g\<lparr>g_currentHttpState := GPRS_ERROR\<rparr>
            else if length (g_asyncPayload g) > 0
                    \<and> \<not> offset + length (g_asyncPayload g) < GPRS_REQUEST_BUFFER_SIZE
            then g\<lparr>g_currentHttpState := GPRS_ERROR\<rparr>
            else
              (let offset1 = (if length (g_asyncPayload g) > 0
                              then offset + length (g_asyncPayload g) else offset)
               in if client_write obs \<noteq> offset1
                  then
                    (let g1 = g\<lparr>g_currentHttpState := GPRS_ERROR\<rparr>
                     in if currentGprsState g1 = GPRS_STATE_OPERATIONAL
                        then transitionToState now GPRS_STATE_CONNECTION_LOST g1 else g1)
                  else g\<lparr>gprsResponseBuffer := [],
                         g_asyncRequestStartTime := now,
                         g_currentHttpState := GPRS_HEADERS_RECEIVING\<rparr>)))"

text \<open>
  The block of \<open>case GPRSHttpState::HEADERS_RECEIVING\<close> that runs once the buffer
  ends with an empty line: the status line, the \<open>Content-Length\<close> and
  \<open>Transfer-Encoding\<close> headers, and the start of the body. The result says, first,
  whether \<open>stop()\<close> was called on the client.
\<close>

definition GPRSManager_parse_headers :: "ulong \<Rightarrow> 'j GPRSManager \<Rightarrow> bool \<times> 'j GPRSManager" where
  "GPRSManager_parse_headers now g =
     (let buf = gprsResponseBuffer g;
          firstSpace = String_indexOf_char buf CHR '' '' 0;
          secondSpace = (if firstSpace \<noteq> - 1
                         then String_indexOf_char buf CHR '' '' (as_unsigned (firstSpace + 1))
                         else - 1)
      in if secondSpace \<noteq> - 1 \<and> firstSpace \<noteq> - 1 \<and> secondSpace > firstSpace then
           (let status = String_toInt
                  (String_substring buf (as_unsigned (firstSpace + 1)) (as_unsigned secondSpace));
                tempHeaders = String_toLowerCase buf;
                clPos = String_indexOf tempHeaders ''content-length:'' 0;
                contentLength0 =
                  (if clPos \<noteq> - 1 then
                     (let clValStart = clPos + int (length ''content-length:'');
                          clEnd = String_indexOf buf CRLF (as_unsigned clValStart)
                      in if clEnd \<noteq> - 1
                         then (word_of_int (String_toInt
                                 (String_substring buf (as_unsigned clValStart) (as_unsigned clEnd)))
                               :: ulong)
                         else 0)
                   else 0);
                chunked = (String_indexOf tempHeaders ''transfer-encoding: chunked'' 0 \<noteq> - 1);
                contentLength = (if chunked then 0 else contentLength0);
                bodyStartIndex = String_indexOf buf (CRLF @ CRLF) 0;
                initialBodyChunk =
                  (if bodyStartIndex \<noteq> - 1
                   then String_substring buf (as_unsigned (bodyStartIndex + 4)) (length buf)
                   else []);
                g1 = g\<lparr>gprsHttpStatusCode := status,
                       gprsContentLength := contentLength,
                       gprsChunkedEncoding := chunked,
                       gprsResponseBuffer := initialBodyChunk,
                       gprsBodyBytesRead := of_nat (length initialBodyChunk)\<rparr>
            in if status \<ge> 200 \<and> status < 300 then
                 (if \<not> chunked \<and> contentLength = 0 \<and> gprsBodyBytesRead g1 = 0
                  then (False, g1\<lparr>g_currentHttpState := GPRS_PROCESSING_RESPONSE\<rparr>)
                  else (False, g1\<lparr>g_currentHttpState := GPRS_BODY_RECEIVING,
                                    g_asyncRequestStartTime := now\<rparr>))
               else if status = 0 then (True, g1)
               else (False, g1\<lparr>g_currentHttpState := GPRS_BODY_RECEIVING,
                                 g_asyncRequestStartTime := now\<rparr>))
         else (True, g\<lparr>gprsHttpStatusCode := 0, g_currentHttpState := GPRS_ERROR\<rparr>))"

text \<open>
  The \<open>while (_gprsClient.available())\<close> loop of \<open>HEADERS_RECEIVING\<close>, over the
  bytes the client delivers. \<open>char\<close> is unsigned on this target, so the test
  \<open>c == -1\<close> never holds and every byte read is appended. The loop is left as
  soon as the headers are complete or too long; the bytes after that stay with the
  client.
\<close>

fun GPRSManager_read_headers ::
  "ulong \<Rightarrow> string \<Rightarrow> 'j GPRSManager \<Rightarrow> bool \<times> 'j GPRSManager" where
  "GPRSManager_read_headers now [] g = (False, g)"
| "GPRSManager_read_headers now (c # cs) g =
     (let g1 = g\<lparr>gprsResponseBuffer := gprsResponseBuffer g @ [c]\<rparr>
      in if length (gprsResponseBuffer g1) \<ge> GPRS_MAX_HEADER_SIZE
         then (True, g1\<lparr>g_currentHttpState := GPRS_ERROR\<rparr>)
         else if String_endsWith (gprsResponseBuffer g1) (CRLF @ CRLF)
         then GPRSManager_parse_headers now g1
         else GPRSManager_read_headers now cs g1)"

text \<open>The body of \<open>case GPRSHttpState::HEADERS_RECEIVING\<close>.\<close>

definition GPRSManager_HEADERS_RECEIVING ::
  "ulong \<Rightarrow> GprsClientObs \<Rightarrow> 'j GPRSManager \<Rightarrow> 'j GPRSManager" where
  "GPRSManager_HEADERS_RECEIVING now obs g =
     (if \<not> client_connected obs \<and> g_currentHttpState g = GPRS_HEADERS_RECEIVING
      then g\<lparr>g_currentHttpState := GPRS_ERROR\<rparr>
      else
        (let (stopped, g1) = GPRSManager_read_headers now (client_incoming obs) g
         in if g_currentHttpState g1 = GPRS_HEADERS_RECEIVING then
              (if now - g_asyncRequestStartTime g1 > GPRS_HTTP_HEADER_TIMEOUT_MS
               then g1\<lparr>g_currentHttpState := GPRS_ERROR\<rparr>
               else if \<not> (client_connected_late obs \<and> \<not> stopped)
               then g1\<lparr>g_currentHttpState := GPRS_ERROR\<rparr>
               else g1)
            else g1))"

text \<open>
  The \<open>while (_gprsClient.available())\<close> loop of \<open>BODY_RECEIVING\<close>: bytes are
  appended while the buffer holds fewer than \<open>GPRS_BODY_BUFFER_SIZE - 1\<close> characters,
  and discarded after that.
\<close>

fun GPRSManager_read_body :: "string \<Rightarrow> 'j GPRSManager \<Rightarrow> 'j GPRSManager" where
  "GPRSManager_read_body [] g = g"
| "GPRSManager_read_body (c # cs) g =
     (if length (gprsResponseBuffer g) < GPRS_BODY_BUFFER_SIZE - 1
      then GPRSManager_read_body cs
             (g\<lparr>gprsResponseBuffer := gprsResponseBuffer g @ [c],
                gprsBodyBytesRead := gprsBodyBytesRead g + 1\<rparr>)
      else g)"

text \<open>
  One iteration of the \<open>while (true)\<close> loop that removes the chunk framing, from
  position \<open>currentPos\<close> with \<open>unchunkedBody\<close> collected so far: either the loop
  ends, with the value of \<open>bodyComplete\<close> and the collected body, or it goes on from
  a new position. \<open>chunkDataStart + chunkSize\<close> is compared with the unsigned length
  after conversion to unsigned, so a negative sum ends the loop.
\<close>

definition unchunk_step :: "string \<Rightarrow> int \<Rightarrow> string \<Rightarrow> (bool \<times> string) + (int \<times> string)" where
  "unchunk_step buf currentPos unchunkedBody =
     (let chunkSizeHexEnd = String_indexOf buf CRLF (as_unsigned currentPos)
      in if chunkSizeHexEnd = - 1 then Inl (False, unchunkedBody)
         else
           (let chunkSizeHex = String_substring buf (as_unsigned currentPos)
                                 (as_unsigned chunkSizeHexEnd);
                chunkSize = strtol chunkSizeHex 16
            in if chunkSize = 0 then Inl (True, unchunkedBody)
               else
                 (let chunkDataStart = chunkSizeHexEnd + 2
                  in if as_unsigned (chunkDataStart + chunkSize) > length buf
                     then Inl (False, unchunkedBody)
                     else
                       (let unchunkedBody1 = unchunkedBody
                              @ String_substring buf (as_unsigned chunkDataStart)
                                  (as_unsigned (chunkDataStart + chunkSize));
                            currentPos1 = chunkDataStart + chunkSize + 2
                        in if as_unsigned currentPos1 \<ge> as_unsigned (int (length buf) - 1)
                              \<and> chunkSize \<noteq> 0
                           then Inl (False, unchunkedBody1)
                           else if as_unsigned currentPos1 \<ge> as_unsigned (int (length buf) - 1)
                                   \<and> chunkSize = 0
                           then Inl (True, unchunkedBody1)
                           else Inr (currentPos1, unchunkedBody1)))))"

text \<open>
  The loop itself. A chunk size may be negative, and the position then need not
  advance: the loop can run forever, which is the value \<open>None\<close>.
\<close>

partial_function (option) unchunk_loop :: "string \<Rightarrow> int \<Rightarrow> string \<Rightarrow> (bool \<times> string) option" where
  "unchunk_loop buf currentPos unchunkedBody =
     (case unchunk_step buf currentPos unchunkedBody of
        Inl r \<Rightarrow> Some r
      | Inr next_iteration \<Rightarrow> unchunk_loop buf (fst next_iteration) (snd next_iteration))"

declare unchunk_loop.simps [code]

text \<open>
  The body of \<open>case GPRSHttpState::BODY_RECEIVING\<close>; \<open>None\<close> when the chunk loop
  does not end.
\<close>

definition GPRSManager_BODY_RECEIVING ::
  "ulong \<Rightarrow> GprsClientObs \<Rightarrow> 'j GPRSManager \<Rightarrow> 'j GPRSManager option" where
  "GPRSManager_BODY_RECEIVING now obs g =
     (if \<not> client_connected obs \<and> \<not> gprsChunkedEncoding g
         \<and> (gprsContentLength g = 0 \<or> gprsBodyBytesRead g < gprsContentLength g)
      then Some (g\<lparr>g_currentHttpState :=
                     (if gprsBodyBytesRead g > 0
                         \<or> (gprsHttpStatusCode g \<ge> 200 \<and> gprsHttpStatusCode g < 300
                            \<and> gprsContentLength g = 0)
                      then GPRS_PROCESSING_RESPONSE else GPRS_ERROR)\<rparr>)
      else
        (let g1 = GPRSManager_read_body (client_incoming obs) g
         in case
              (if gprsChunkedEncoding g1 then
                 (if String_indexOf (gprsResponseBuffer g1) (CRLF @ ''0'' @ CRLF @ CRLF) 0 \<noteq> - 1
                  then
                    (case unchunk_loop (gprsResponseBuffer g1) 0 [] of
                       None \<Rightarrow> None
                     | Some (bodyComplete, unchunkedBody) \<Rightarrow>
                         Some (bodyComplete,
                               if bodyComplete then g1\<lparr>gprsResponseBuffer := unchunkedBody\<rparr>
                               else g1))
                  else if \<not> client_connected_late obs \<and> gprsBodyBytesRead g1 > 0
                  then Some (True, g1)
                  else Some (False, g1))
               else if gprsContentLength g1 > 0 \<and> gprsBodyBytesRead g1 \<ge> gprsContentLength g1
               then Some (True, g1)
               else if gprsContentLength g1 = 0 \<and> \<not> client_connected_late obs
               then Some (True, g1)
               else Some (False, g1))
            of
              None \<Rightarrow> None
            | Some (bodyComplete, g2) \<Rightarrow>
                Some
                  (if bodyComplete then g2\<lparr>g_currentHttpState := GPRS_PROCESSING_RESPONSE\<rparr>
                   else if now - g_asyncRequestStartTime g2 > GPRS_HTTP_BODY_TIMEOUT_MS then
                     (if gprsBodyBytesRead g2 > 0
                         \<and> gprsHttpStatusCode g2 \<ge> 200 \<and> gprsHttpStatusCode g2 < 300
                      then g2\<lparr>g_currentHttpState := GPRS_PROCESSING_RESPONSE\<rparr>
                      else g2\<lparr>g_currentHttpState := GPRS_ERROR\<rparr>)
                   else if \<not> client_connected_late obs
                           \<and> g_currentHttpState g2 = GPRS_BODY_RECEIVING then
                     (if gprsBodyBytesRead g2 > 0
                         \<or> (gprsHttpStatusCode g2 \<ge> 200 \<and> gprsHttpStatusCode g2 < 300
                            \<and> gprsContentLength g2 = 0)
                      then g2\<lparr>g_currentHttpState := GPRS_PROCESSING_RESPONSE\<rparr>
                      else g2\<lparr>g_currentHttpState := GPRS_ERROR\<rparr>)
                   else g2)))"

text \<open>The body of \<open>case GPRSHttpState::PROCESSING_RESPONSE\<close>.\<close>

definition GPRSManager_PROCESSING_RESPONSE ::
  "(string \<Rightarrow> 'j option) \<Rightarrow> 'j GPRSManager \<Rightarrow> 'j GPRSManager" where
  "GPRSManager_PROCESSING_RESPONSE deserializeJson g =
     (let (cbOk, g1) =
        (if gprsHttpStatusCode g \<ge> 200 \<and> gprsHttpStatusCode g < 300 then
           (case g_asyncCb g of
              Some cb \<Rightarrow>
                (case deserializeJson (gprsResponseBuffer g) of
                   None \<Rightarrow> (False, g\<lparr>g_jsonDoc := None\<rparr>)
                 | Some doc \<Rightarrow> (cb doc, g\<lparr>g_jsonDoc := Some doc, g_cbLog := g_cbLog g @ [doc]\<rparr>))
            | None \<Rightarrow> (True, g))
         else
           (case g_asyncCb g of
              Some cb \<Rightarrow>
                (if gprsHttpStatusCode g \<noteq> 0 then
                   (case deserializeJson (gprsResponseBuffer g) of
                      None \<Rightarrow> (False, g\<lparr>g_jsonDoc := None\<rparr>)
                    | Some doc \<Rightarrow> (False, g\<lparr>g_jsonDoc := Some doc, g_cbLog := g_cbLog g @ [doc]\<rparr>))
                 else (False, g))
            | None \<Rightarrow> (False, g)))
      in g1\<lparr>g_currentHttpState := (if cbOk then GPRS_COMPLETE else GPRS_ERROR)\<rparr>)"

text \<open>The body of \<open>case GPRSHttpState::ERROR\<close>.\<close>

definition GPRSManager_ERROR :: "ulong \<Rightarrow> 'j GPRSManager \<Rightarrow> 'j GPRSManager" where
  "GPRSManager_ERROR now g =
     (if GPRSManager_isRetryableError (gprsHttpStatusCode g) \<and> g_httpRetries g < MAX_HTTP_RETRIES
      then g\<lparr>g_httpRetries := g_httpRetries g + 1,
             g_asyncRequestStartTime := now + HTTP_RETRY_DELAY_MS,
             g_currentHttpState := GPRS_RETRY_WAIT\<rparr>
      else g\<lparr>g_asyncOperationActive := False, g_currentHttpState := GPRS_IDLE\<rparr>)"

text \<open>The body of \<open>case GPRSHttpState::RETRY_WAIT\<close>.\<close>

definition GPRSManager_RETRY_WAIT :: "ulong \<Rightarrow> 'j GPRSManager \<Rightarrow> 'j GPRSManager" where
  "GPRSManager_RETRY_WAIT now g =
     (if now \<ge> g_asyncRequestStartTime g
      then g\<lparr>gprsResponseBuffer := [],
             gprsHttpStatusCode := 0,
             gprsContentLength := 0,
             gprsChunkedEncoding := False,
             gprsBodyBytesRead := 0,
             g_jsonDoc := None,
             g_asyncRequestStartTime := now,
             g_currentHttpState := GPRS_CLIENT_CONNECT\<rparr>
      else g)"

text \<open>
  \<open>GPRSManager::updateHttpOperations\<close>, one poll of the HTTP FSM. Nothing happens
  without an active request. While the connection FSM is not Operational a request
  that is under way is put in the error state, and the poll ends there: no state of
  the HTTP FSM is served. Otherwise a request under way for longer than
  \<open>GPRS_HTTP_TOTAL_TIMEOUT_MS\<close> is put in the error state, and then the current
  state is served. The \<open>default\<close> branch of the \<open>switch\<close> has no state left to
  serve.
\<close>

definition GPRSManager_updateHttpOperations ::
  "(string \<Rightarrow> 'j option) \<Rightarrow> ulong \<Rightarrow> GprsClientObs \<Rightarrow> 'j GPRSManager \<Rightarrow> 'j GPRSManager option" where
  "GPRSManager_updateHttpOperations deserializeJson now obs g =
     (if \<not> g_asyncOperationActive g then Some g
      else if currentGprsState g \<noteq> GPRS_STATE_OPERATIONAL then
        (if g_currentHttpState g \<noteq> GPRS_IDLE \<and> g_currentHttpState g \<noteq> GPRS_COMPLETE
            \<and> g_currentHttpState g \<noteq> GPRS_ERROR
         then Some (g\<lparr>g_currentHttpState := GPRS_ERROR\<rparr>)
         else Some g)
      else
        (let g0 = (if g_currentHttpState g \<noteq> GPRS_IDLE \<and> g_currentHttpState g \<noteq> GPRS_COMPLETE
                      \<and> g_currentHttpState g \<noteq> GPRS_ERROR
                      \<and> now - g_asyncRequestStartTime g > GPRS_HTTP_TOTAL_TIMEOUT_MS
                   then g\<lparr>g_currentHttpState := GPRS_ERROR\<rparr> else g)
         in case g_currentHttpState g0 of
              GPRS_IDLE \<Rightarrow> Some (g0\<lparr>g_asyncOperationActive := False\<rparr>)
            | GPRS_CLIENT_CONNECT \<Rightarrow> Some (GPRSManager_CLIENT_CONNECT now obs g0)
            | GPRS_SENDING_REQUEST \<Rightarrow> Some (GPRSManager_SENDING_REQUEST now obs g0)
            | GPRS_HEADERS_RECEIVING \<Rightarrow> Some (GPRSManager_HEADERS_RECEIVING now obs g0)
            | GPRS_BODY_RECEIVING \<Rightarrow> GPRSManager_BODY_RECEIVING now obs g0
            | GPRS_PROCESSING_RESPONSE \<Rightarrow>
                Some (GPRSManager_PROCESSING_RESPONSE deserializeJson g0)
            | GPRS_COMPLETE \<Rightarrow>
                Some (g0\<lparr>g_asyncOperationActive := False, g_currentHttpState := GPRS_IDLE\<rparr>)
            | GPRS_ERROR \<Rightarrow> Some (GPRSManager_ERROR now g0)
            | GPRS_RETRY_WAIT \<Rightarrow> Some (GPRSManager_RETRY_WAIT now g0)))"

subsection \<open>Constructors\<close>

text \<open>
  The constructors' member initialisers. Members the constructors leave uninitialised
  (\<open>_httpRetries\<close>, \<open>_asyncNeedsAuth\<close>, \<open>_asyncRequestStartTime\<close>, \<open>_gprsPort\<close>) get
  zero or false here, \<open>String\<close> members start empty, and the radio starts disconnected.
\<close>

definition WiFiManager_init :: "string \<Rightarrow> string \<Rightarrow> 'j WiFiManager" where
  "WiFiManager_init ssid authToken =
     \<lparr>w_ssid = ssid,
      w_authToken = authToken,
      WiFi_connected = False,
      w_currentHttpState = WiFi_IDLE,
      w_asyncUrl = [],
      w_asyncMethod = [],
      w_asyncApiType = [],
      w_asyncPayload = [],
      w_asyncCb = None,
      w_asyncNeedsAuth = False,
      w_asyncRequestStartTime = 0,
      w_asyncOperationActive = False,
      w_httpStatusCode = 0,
      w_httpRetries = 0,
      w_jsonDoc = None,
      w_cbLog = []\<rparr>"

definition GPRSManager_init ::
  "string \<Rightarrow> string \<Rightarrow> DeviceStateGprs option \<Rightarrow> 'j GPRSManager" where
  "GPRSManager_init pin authToken ds =
     \<lparr>simPin = pin,
      deviceState_ptr = ds,
      currentGprsState = GPRS_STATE_DISABLED,
      lastGprsStateTransitionTime = 0,
      gprsReconnectAttempt = 0,
      modemResetCount = 0,
      gprsAttachFailCount = 0,
      modemCmds = [],
      g_authToken = authToken,
      g_currentHttpState = GPRS_IDLE,
      g_asyncUrl = [],
      g_asyncMethod = [],
      g_asyncApiType = [],
      g_asyncPayload = [],
      g_asyncCb = None,
      g_asyncNeedsAuth = False,
      g_asyncRequestStartTime = 0,
      g_asyncOperationActive = False,
      g_httpRetries = 0,
      gprsHost = [],
      gprsPath = [],
      gprsPort = 0,
      gprsResponseBuffer = [],
      gprsHttpStatusCode = 0,
      gprsContentLength = 0,
      gprsChunkedEncoding = False,
      gprsBodyBytesRead = 0,
      g_jsonDoc = None,
      g_cbLog = []\<rparr>"

section \<open>Connectivity facade (NetworkFacade)\<close>

datatype NetworkPreference = WIFI_ONLY | GPRS_ONLY | WIFI_PREFERRED | GPRS_PREFERRED

text \<open>
  \<open>_activeInterface\<close> is a null pointer or one of the two manager pointers: an
  \<open>Interface option\<close>. A manager pointer is null when the manager is \<open>None\<close>.
\<close>

datatype Interface = WiFiInterface | GPRSInterface

text \<open>
  The calls the facade makes on its managers are recorded in the order they are made
  (field \<open>calls\<close>), each \<open>connect\<close> with the result it returned.
\<close>

datatype ManagerCall =
    Call_WiFi_connect bool
  | Call_WiFi_disconnect
  | Call_GPRS_connect bool
  | Call_GPRS_disconnect

record 'j NetworkFacade =
  preference :: NetworkPreference
  wifiManagerRaw :: "'j WiFiManager option"
  gprsManagerRaw :: "'j GPRSManager option"
  activeInterface :: "Interface option"
  calls :: "ManagerCall list"

text \<open>\<open>wm && wm->isConnected()\<close> and \<open>gm && gm->isConnected()\<close>.\<close>

definition wm_isConnected :: "'j NetworkFacade \<Rightarrow> bool" where
  "wm_isConnected f =
     (case wifiManagerRaw f of None \<Rightarrow> False | Some w \<Rightarrow> WiFiManager_isConnected w)"

definition gm_isConnected :: "'j NetworkFacade \<Rightarrow> bool" where
  "gm_isConnected f =
     (case gprsManagerRaw f of None \<Rightarrow> False | Some g \<Rightarrow> GPRSManager_isConnected g)"

text \<open>\<open>wm && wm->connect()\<close> and \<open>gm && gm->connect()\<close>, with the short circuit.\<close>

definition wm_connect :: "(nat \<Rightarrow> bool) \<Rightarrow> 'j NetworkFacade \<Rightarrow> bool \<times> 'j NetworkFacade" where
  "wm_connect att f =
     (case wifiManagerRaw f of
        None \<Rightarrow> (False, f)
      | Some w \<Rightarrow>
          (let (ok, w') = WiFiManager_connect att w
           in (ok, f\<lparr>wifiManagerRaw := Some w', calls := calls f @ [Call_WiFi_connect ok]\<rparr>)))"

definition gm_connect :: "ulong \<Rightarrow> 'j NetworkFacade \<Rightarrow> bool \<times> 'j NetworkFacade" where
  "gm_connect now f =
     (case gprsManagerRaw f of
        None \<Rightarrow> (False, f)
      | Some g \<Rightarrow>
          (let (ok, g') = GPRSManager_connect now g
           in (ok, f\<lparr>gprsManagerRaw := Some g', calls := calls f @ [Call_GPRS_connect ok]\<rparr>)))"

text \<open>
  \<open>if (wm && wm->isConnected()) wm->disconnect();\<close> and the same statement for
  \<open>gm\<close>.
\<close>

definition wm_disconnect_if_connected :: "'j NetworkFacade \<Rightarrow> 'j NetworkFacade" where
  "wm_disconnect_if_connected f =
     (case wifiManagerRaw f of
        None \<Rightarrow> f
      | Some w \<Rightarrow>
          if WiFiManager_isConnected w
          then f\<lparr>wifiManagerRaw := Some (WiFiManager_disconnect w),
                 calls := calls f @ [Call_WiFi_disconnect]\<rparr>
          else f)"

definition gm_disconnect_if_connected :: "'j NetworkFacade \<Rightarrow> 'j NetworkFacade" where
  "gm_disconnect_if_connected f =
     (case gprsManagerRaw f of
        None \<Rightarrow> f
      | Some g \<Rightarrow>
          if GPRSManager_isConnected g
          then f\<lparr>gprsManagerRaw := Some (GPRSManager_disconnect g),
                 calls := calls f @ [Call_GPRS_disconnect]\<rparr>
          else f)"

definition determineActiveInterface :: "'j NetworkFacade \<Rightarrow> 'j NetworkFacade" where
  "determineActiveInterface f =
     (let wm = wifiManagerRaw f;
          gm = gprsManagerRaw f;
          wifiConnected = wm_isConnected f;
          gprsConnected = gm_isConnected f
      in f\<lparr>activeInterface :=
             (case preference f of
                WIFI_ONLY \<Rightarrow> if wm \<noteq> None then Some WiFiInterface else None
              | GPRS_ONLY \<Rightarrow> if gm \<noteq> None then Some GPRSInterface else None
              | WIFI_PREFERRED \<Rightarrow>
                  if wm \<noteq> None \<and> wifiConnected then Some WiFiInterface
                  else if gm \<noteq> None \<and> gprsConnected then Some GPRSInterface
                  else if wm \<noteq> None then Some WiFiInterface
                  else if gm \<noteq> None then Some GPRSInterface
                  else None
              | GPRS_PREFERRED \<Rightarrow>
                  if gm \<noteq> None \<and> gprsConnected then Some GPRSInterface
                  else if wm \<noteq> None \<and> wifiConnected then Some WiFiInterface
                  else if gm \<noteq> None then Some GPRSInterface
                  else if wm \<noteq> None then Some WiFiInterface
                  else None)\<rparr>)"

text \<open>
  \<open>att\<close> gives the outcomes of the WiFi association attempts made during the call and
  \<open>now\<close> is \<open>millis()\<close> as read by the GPRS manager.
\<close>

definition NetworkFacade_connect ::
  "(nat \<Rightarrow> bool) \<Rightarrow> ulong \<Rightarrow> 'j NetworkFacade \<Rightarrow> bool \<times> 'j NetworkFacade" where
  "NetworkFacade_connect att now f =
     (let (success, f') =
        (case preference f of
           WIFI_ONLY \<Rightarrow> wm_connect att f
         | GPRS_ONLY \<Rightarrow> gm_connect now f
         | WIFI_PREFERRED \<Rightarrow>
             (let (ok, f1) = wm_connect att f
              in if ok then (True, f1)
                 else if gprsManagerRaw f1 \<noteq> None
                 then gm_connect now (wm_disconnect_if_connected f1)
                 else (False, f1))
         | GPRS_PREFERRED \<Rightarrow>
             (let (ok, f1) = gm_connect now f
              in if ok then (True, f1)
                 else if wifiManagerRaw f1 \<noteq> None
                 then wm_connect att (gm_disconnect_if_connected f1)
                 else (False, f1)))
      in (success, determineActiveInterface f'))"

definition NetworkFacade_disconnect :: "'j NetworkFacade \<Rightarrow> 'j NetworkFacade" where
  "NetworkFacade_disconnect f =
     (gm_disconnect_if_connected (wm_disconnect_if_connected f))\<lparr>activeInterface := None\<rparr>"

definition NetworkFacade_isConnected :: "'j NetworkFacade \<Rightarrow> bool" where
  "NetworkFacade_isConnected f =
     (case activeInterface f of
        Some WiFiInterface \<Rightarrow> wm_isConnected f
      | Some GPRSInterface \<Rightarrow> gm_isConnected f
      | None \<Rightarrow> if wm_isConnected f then True else if gm_isConnected f then True else False)"

definition switchToWiFi :: "(nat \<Rightarrow> bool) \<Rightarrow> 'j NetworkFacade \<Rightarrow> bool \<times> 'j NetworkFacade" where
  "switchToWiFi att f =
     (if wifiManagerRaw f = None then (False, f)
      else
        (let (ok, f1) = wm_connect att f
         in if ok then (True, determineActiveInterface (gm_disconnect_if_connected f1))
            else (False, determineActiveInterface f1)))"

definition switchToGPRS :: "ulong \<Rightarrow> 'j NetworkFacade \<Rightarrow> bool \<times> 'j NetworkFacade" where
  "switchToGPRS now f =
     (if gprsManagerRaw f = None then (False, f)
      else
        (let (ok, f1) = gm_connect now f
         in if ok then (True, determineActiveInterface (wm_disconnect_if_connected f1))
            else (False, determineActiveInterface f1)))"

definition getPreference :: "'j NetworkFacade \<Rightarrow> NetworkPreference" where
  "getPreference f = preference f"

definition setPreference :: "NetworkPreference \<Rightarrow> 'j NetworkFacade \<Rightarrow> 'j NetworkFacade" where
  "setPreference p f = determineActiveInterface (f\<lparr>preference := p\<rparr>)"

text \<open>The pointer comparison \<open>getCurrentInterface() == getGPRSManager()\<close>.\<close>

definition currentInterface_is_GPRSManager :: "'j NetworkFacade \<Rightarrow> bool" where
  "currentInterface_is_GPRSManager f =
     (case activeInterface f of
        Some GPRSInterface \<Rightarrow> gprsManagerRaw f \<noteq> None
      | Some WiFiInterface \<Rightarrow> False
      | None \<Rightarrow> gprsManagerRaw f = None)"

definition NetworkFacade_init ::
  "NetworkPreference \<Rightarrow> 'j WiFiManager option \<Rightarrow> 'j GPRSManager option \<Rightarrow> 'j NetworkFacade" where
  "NetworkFacade_init p wm gm =
     determineActiveInterface
       \<lparr>preference = p, wifiManagerRaw = wm, gprsManagerRaw = gm,
        activeInterface = None, calls = []\<rparr>"

section \<open>Main loop: reconnect and switch-back backoff (ESP32GreenhouseController.ino)\<close>

text \<open>
  The fields of the global \<open>DeviceState\<close> that \<open>handleNetworkConnection\<close> reads and
  writes, with the constructor's initial values.
\<close>

record DeviceState =
  lastConnectionRetryTime :: ulong
  lastWiFiRetryWhenGprsTime :: ulong
  currentConnectionRetryDelayMs :: ulong
  currentWiFiSwitchBackoffDelayMs :: ulong

definition DeviceState_init :: DeviceState where
  "DeviceState_init =
     \<lparr>lastConnectionRetryTime = 0,
      lastWiFiRetryWhenGprsTime = 0,
      currentConnectionRetryDelayMs = INITIAL_RETRY_DELAY_MS,
      currentWiFiSwitchBackoffDelayMs = WIFI_RETRY_WHEN_GPRS_MS\<rparr>"

text \<open>The globals \<open>networkFacade\<close> (a pointer, possibly null) and \<open>deviceState\<close>.\<close>

record 'j Globals =
  networkFacade :: "'j NetworkFacade option"
  deviceState :: DeviceState

text \<open>
  What happens around one call of \<open>handleNetworkConnection(now)\<close>: the outcomes of the
  WiFi association attempts of the reconnect and of the switch-back, and the value of
  \<open>millis()\<close> read inside the GPRS manager. The LCD messages and the RTC drift check
  made after a success do not touch the fields modelled here.
\<close>

record Round =
  att_reconnect :: "nat \<Rightarrow> bool"
  att_switch :: "nat \<Rightarrow> bool"
  millis :: ulong
  loop_now :: ulong

text \<open>The first \<open>if\<close> statement of \<open>handleNetworkConnection\<close>.\<close>

definition reconnect_due :: "Round \<Rightarrow> 'j Globals \<Rightarrow> bool" where
  "reconnect_due r s =
     (case networkFacade s of
        None \<Rightarrow> False
      | Some f \<Rightarrow>
          \<not> NetworkFacade_isConnected f
          \<and> loop_now r - lastConnectionRetryTime (deviceState s)
              \<ge> currentConnectionRetryDelayMs (deviceState s))"

definition handleNetworkConnection_reconnect :: "Round \<Rightarrow> 'j Globals \<Rightarrow> 'j Globals" where
  "handleNetworkConnection_reconnect r s =
     (case networkFacade s of
        None \<Rightarrow> s
      | Some f \<Rightarrow>
          if reconnect_due r s then
            (let d1 = (deviceState s)\<lparr>lastConnectionRetryTime := loop_now r\<rparr>;
                 (ok, f1) = NetworkFacade_connect (att_reconnect r) (millis r) f
             in if ok then
                  s\<lparr>networkFacade := Some f1,
                    deviceState := d1\<lparr>currentConnectionRetryDelayMs := INITIAL_RETRY_DELAY_MS\<rparr>\<rparr>
                else
                  (let d2 = d1\<lparr>currentConnectionRetryDelayMs :=
                                  currentConnectionRetryDelayMs d1 * 2\<rparr>;
                       d3 = (if currentConnectionRetryDelayMs d2 > MAX_RETRY_DELAY_MS
                             then d2\<lparr>currentConnectionRetryDelayMs := MAX_RETRY_DELAY_MS\<rparr>
                             else d2)
                   in s\<lparr>networkFacade := Some f1, deviceState := d3\<rparr>))
          else s)"

text \<open>The second \<open>if\<close> statement of \<open>handleNetworkConnection\<close>.\<close>

definition switch_back_due :: "Round \<Rightarrow> 'j Globals \<Rightarrow> bool" where
  "switch_back_due r s =
     (case networkFacade s of
        None \<Rightarrow> False
      | Some f \<Rightarrow>
          getPreference f = WIFI_PREFERRED
          \<and> wifiManagerRaw f \<noteq> None
          \<and> currentInterface_is_GPRSManager f
          \<and> NetworkFacade_isConnected f
          \<and> loop_now r - lastWiFiRetryWhenGprsTime (deviceState s)
              \<ge> currentWiFiSwitchBackoffDelayMs (deviceState s))"

definition handleNetworkConnection_switch_back :: "Round \<Rightarrow> 'j Globals \<Rightarrow> 'j Globals" where
  "handleNetworkConnection_switch_back r s =
     (case networkFacade s of
        None \<Rightarrow> s
      | Some f \<Rightarrow>
          if switch_back_due r s then
            (let d1 = (deviceState s)\<lparr>lastWiFiRetryWhenGprsTime := loop_now r\<rparr>;
                 (ok, f1) = switchToWiFi (att_switch r) f
             in if ok then
                  s\<lparr>networkFacade := Some f1,
                    deviceState := d1\<lparr>currentWiFiSwitchBackoffDelayMs := WIFI_RETRY_WHEN_GPRS_MS\<rparr>\<rparr>
                else
                  (let d2 = d1\<lparr>currentWiFiSwitchBackoffDelayMs :=
                                  currentWiFiSwitchBackoffDelayMs d1 * 2\<rparr>;
                       d3 = (if currentWiFiSwitchBackoffDelayMs d2 > MAX_WIFI_RETRY_WHEN_GPRS_MS
                             then d2\<lparr>currentWiFiSwitchBackoffDelayMs := MAX_WIFI_RETRY_WHEN_GPRS_MS\<rparr>
                             else d2)
                   in s\<lparr>networkFacade := Some f1, deviceState := d3\<rparr>))
          else s)"

definition handleNetworkConnection :: "Round \<Rightarrow> 'j Globals \<Rightarrow> 'j Globals" where
  "handleNetworkConnection r s =
     handleNetworkConnection_switch_back r (handleNetworkConnection_reconnect r s)"

section \<open>Definitions used to state the properties\<close>

text \<open>
  The selection table of section 4.1 of the specification, in the specification's
  words. \<open>wifi\<close> and \<open>gprs\<close> are the two transports' handles (\<open>None\<close> for a transport
  that is not present), \<open>wifiConnected\<close> and \<open>gprsConnected\<close> their connected status.
  Only-preferences select that transport if present, else none; WiFi-preferred selects
  WiFi if connected, else GPRS if connected, else WiFi if present, else GPRS;
  GPRS-preferred is symmetric.
\<close>

definition section_4_1_table ::
  "NetworkPreference \<Rightarrow> Interface option \<Rightarrow> Interface option \<Rightarrow> bool \<Rightarrow> bool \<Rightarrow> Interface option" where
  "section_4_1_table p wifi gprs wifiConnected gprsConnected =
     (case p of
        WIFI_ONLY \<Rightarrow> wifi
      | GPRS_ONLY \<Rightarrow> gprs
      | WIFI_PREFERRED \<Rightarrow>
          if wifiConnected then wifi else if gprsConnected then gprs
          else if wifi \<noteq> None then wifi else gprs
      | GPRS_PREFERRED \<Rightarrow>
          if gprsConnected then gprs else if wifiConnected then wifi
          else if gprs \<noteq> None then gprs else wifi)"

definition wifi_handle :: "'j NetworkFacade \<Rightarrow> Interface option" where
  "wifi_handle f = (case wifiManagerRaw f of None \<Rightarrow> None | Some w \<Rightarrow> Some WiFiInterface)"

definition gprs_handle :: "'j NetworkFacade \<Rightarrow> Interface option" where
  "gprs_handle f = (case gprsManagerRaw f of None \<Rightarrow> None | Some g \<Rightarrow> Some GPRSInterface)"

text \<open>
  A sequence of polls in each of which network registration has not completed and the
  per-state timeout has expired since the timer was last restarted at \<open>t0\<close>.
\<close>

fun registration_timeouts :: "ulong \<Rightarrow> (ulong \<times> ModemObs) list \<Rightarrow> bool" where
  "registration_timeouts t0 [] = True"
| "registration_timeouts t0 ((now, obs) # ps) =
     (\<not> isNetworkConnected obs \<and> \<not> registrationOk obs
      \<and> now - t0 > GPRS_ATTACH_TIMEOUT_MS \<and> registration_timeouts now ps)"

text \<open>
  Example inputs: a modem that never registers, a modem that is registered and attached,
  and a freshly constructed manager whose connection FSM has been put in a given state.
\<close>

definition obs_unregistered :: ModemObs where
  "obs_unregistered =
     \<lparr>testAT = True, restart = True, hardReset_probe = True,
      simStatus_first = SIM_READY, simUnlock = True, simStatus_check = SIM_READY,
      isNetworkConnected = False, isGprsConnected = False, registrationOk = False,
      gprsConnect = False, getSignalQuality = 99\<rparr>"

definition obs_attached :: ModemObs where
  "obs_attached =
     \<lparr>testAT = True, restart = True, hardReset_probe = True,
      simStatus_first = SIM_READY, simUnlock = True, simStatus_check = SIM_READY,
      isNetworkConnected = True, isGprsConnected = True, registrationOk = True,
      gprsConnect = True, getSignalQuality = 20\<rparr>"

definition fsm_in :: "GPRSState \<Rightarrow> nat GPRSManager" where
  "fsm_in st = (GPRSManager_init [] ''token'' None)\<lparr>currentGprsState := st\<rparr>"

definition five_timeouts :: "(ulong \<times> ModemObs) list" where
  "five_timeouts =
     [(60001, obs_unregistered), (120002, obs_unregistered), (180003, obs_unregistered),
      (240004, obs_unregistered), (300005, obs_unregistered)]"

text \<open>
  A facade holding both managers: the radio up or down, the cellular FSM in a given
  state, and a given active interface.
\<close>

definition facade_both ::
  "NetworkPreference \<Rightarrow> bool \<Rightarrow> GPRSState \<Rightarrow> Interface option \<Rightarrow> nat NetworkFacade" where
  "facade_both p wifiUp st act =
     \<lparr>preference = p,
      wifiManagerRaw = Some ((WiFiManager_init ''greenhouse'' ''token'')\<lparr>WiFi_connected := wifiUp\<rparr>),
      gprsManagerRaw = Some (fsm_in st),
      activeInterface = act, calls = []\<rparr>"

text \<open>
  The calls a facade operation adds to the log of manager calls, and a facade built
  without a GPRS manager whose WiFi is connected.
\<close>

definition calls_made :: "'j NetworkFacade \<Rightarrow> 'j NetworkFacade \<Rightarrow> ManagerCall list" where
  "calls_made f f' = drop (length (calls f)) (calls f')"

definition facade_no_gprs :: "nat NetworkFacade" where
  "facade_no_gprs =
     (facade_both WIFI_PREFERRED True GPRS_STATE_DISABLED (Some WiFiInterface))
       \<lparr>gprsManagerRaw := None\<rparr>"





text \<open>
  WiFi association outcomes: every attempt fails, or the first attempt succeeds. The
  outcome of \<open>wm->connect()\<close> on the facade's WiFi manager, when there is one.
\<close>

definition never_associates :: "nat \<Rightarrow> bool" where
  "never_associates n = False"

definition associates_at_once :: "nat \<Rightarrow> bool" where
  "associates_at_once n = True"

definition wifi_connect_ok :: "(nat \<Rightarrow> bool) \<Rightarrow> 'j NetworkFacade \<Rightarrow> bool" where
  "wifi_connect_ok att f =
     (case wifiManagerRaw f of None \<Rightarrow> False | Some w \<Rightarrow> fst (WiFiManager_connect att w))"


text \<open>
  Example inputs for the HTTP FSMs: a parser that accepts every non-empty body (the
  parsed document is the body's length), a callback that accepts every document, and
  managers about to process a response with a given status.
\<close>

definition deserialize_nonempty :: "string \<Rightarrow> nat option" where
  "deserialize_nonempty body = (if body = [] then None else Some (length body))"

definition accept_any :: "nat \<Rightarrow> bool" where
  "accept_any doc = True"

definition gprs_processing :: "int \<Rightarrow> (nat \<Rightarrow> bool) option \<Rightarrow> string \<Rightarrow> nat GPRSManager" where
  "gprs_processing status cb body =
     (GPRSManager_init [] ''token'' None)
       \<lparr>currentGprsState := GPRS_STATE_OPERATIONAL,
        g_currentHttpState := GPRS_PROCESSING_RESPONSE,
        g_asyncCb := cb,
        g_asyncOperationActive := True,
        gprsResponseBuffer := body,
        gprsHttpStatusCode := status\<rparr>"

definition wifi_processing :: "int \<Rightarrow> (nat \<Rightarrow> bool) option \<Rightarrow> nat WiFiManager" where
  "wifi_processing status cb =
     (WiFiManager_init ''greenhouse'' ''token'')
       \<lparr>WiFi_connected := True,
        w_currentHttpState := WiFi_PROCESSING_RESPONSE,
        w_asyncCb := cb,
        w_asyncOperationActive := True,
        w_httpStatusCode := status\<rparr>"

definition body_obs :: "string \<Rightarrow> HttpClientObs" where
  "body_obs body = \<lparr>http_begin = True, http_send = 200, http_getString = body\<rparr>"


text \<open>
  A TCP client that is not connected and delivers nothing, and a manager found in
  \<open>PROCESSING_RESPONSE\<close> after its connection FSM has lost the connection.
\<close>

definition client_quiet :: GprsClientObs where
  "client_quiet =
     \<lparr>client_connected = False, client_connected_late = False, client_connect = False,
      client_write = 0, client_incoming = []\<rparr>"

definition gprs_paused :: "nat GPRSManager" where
  "gprs_paused =
     (gprs_processing 200 (Some accept_any) ''{}'')
       \<lparr>currentGprsState := GPRS_STATE_CONNECTION_LOST\<rparr>"

text \<open>Managers that are connected and idle, and the same after accepting a request.\<close>

definition wifi_idle :: "nat WiFiManager" where
  "wifi_idle = (WiFiManager_init ''greenhouse'' ''token'')\<lparr>WiFi_connected := True\<rparr>"

definition gprs_idle :: "nat GPRSManager" where
  "gprs_idle = (GPRSManager_init [] ''token'' None)\<lparr>currentGprsState := GPRS_STATE_OPERATIONAL\<rparr>"

definition wifi_started :: "nat WiFiManager" where
  "wifi_started = snd (WiFiManager_startAsyncHttpRequest 100 ''http://api.example.com/th'' ''GET''
     ''TH_ASYNC_LP'' None (Some accept_any) True wifi_idle)"

definition gprs_started :: "nat GPRSManager" where
  "gprs_started = snd (GPRSManager_startAsyncHttpRequest 100 ''http://api.example.com:8080/th'' ''GET''
     ''TH_ASYNC_LP'' None (Some accept_any) True gprs_idle)"


text \<open>
  Outcomes of one call of \<open>handleNetworkConnection\<close>: the result of the
  \<open>connect()\<close> of the reconnect block and of the \<open>switchToWiFi()\<close> of the switch-back
  block, and whether each block ran and failed or succeeded. The switch-back block sees
  the state the reconnect block leaves.
\<close>

definition reconnect_ok :: "Round \<Rightarrow> 'j Globals \<Rightarrow> bool" where
  "reconnect_ok r s =
     (case networkFacade s of
        None \<Rightarrow> False
      | Some f \<Rightarrow> fst (NetworkFacade_connect (att_reconnect r) (millis r) f))"

definition switch_ok :: "Round \<Rightarrow> 'j Globals \<Rightarrow> bool" where
  "switch_ok r s =
     (case networkFacade s of
        None \<Rightarrow> False
      | Some f \<Rightarrow> fst (switchToWiFi (att_switch r) f))"

definition reconnect_fails :: "Round \<Rightarrow> 'j Globals \<Rightarrow> bool" where
  "reconnect_fails r s = (reconnect_due r s \<and> \<not> reconnect_ok r s)"

definition reconnect_succeeds :: "Round \<Rightarrow> 'j Globals \<Rightarrow> bool" where
  "reconnect_succeeds r s = (reconnect_due r s \<and> reconnect_ok r s)"

definition switch_back_fails :: "Round \<Rightarrow> 'j Globals \<Rightarrow> bool" where
  "switch_back_fails r s =
     (switch_back_due r (handleNetworkConnection_reconnect r s)
      \<and> \<not> switch_ok r (handleNetworkConnection_reconnect r s))"

definition switch_back_succeeds :: "Round \<Rightarrow> 'j Globals \<Rightarrow> bool" where
  "switch_back_succeeds r s =
     (switch_back_due r (handleNetworkConnection_reconnect r s)
      \<and> switch_ok r (handleNetworkConnection_reconnect r s))"

text \<open>Successive iterations of the main loop, one \<open>Round\<close> each.\<close>

fun handleNetworkConnection_rounds :: "Round list \<Rightarrow> 'j Globals \<Rightarrow> 'j Globals" where
  "handleNetworkConnection_rounds [] s = s"
| "handleNetworkConnection_rounds (r # rs) s =
     handleNetworkConnection_rounds rs (handleNetworkConnection r s)"

fun consecutive_reconnect_failures :: "Round list \<Rightarrow> 'j Globals \<Rightarrow> bool" where
  "consecutive_reconnect_failures [] s = True"
| "consecutive_reconnect_failures (r # rs) s =
     (reconnect_fails r s \<and> consecutive_reconnect_failures rs (handleNetworkConnection r s))"

fun consecutive_switch_back_failures :: "Round list \<Rightarrow> 'j Globals \<Rightarrow> bool" where
  "consecutive_switch_back_failures [] s = True"
| "consecutive_switch_back_failures (r # rs) s =
     (switch_back_fails r s \<and> consecutive_switch_back_failures rs (handleNetworkConnection r s))"

abbreviation reconnect_delay :: "'j Globals \<Rightarrow> ulong" where
  "reconnect_delay s \<equiv> currentConnectionRetryDelayMs (deviceState s)"

abbreviation switch_back_delay :: "'j Globals \<Rightarrow> ulong" where
  "switch_back_delay s \<equiv> currentWiFiSwitchBackoffDelayMs (deviceState s)"

text \<open>
  Example runs of the main loop. In the first the facade is WiFi-only and WiFi never
  associates; in the second the facade is WiFi-preferred and running on an operational
  GPRS link while WiFi never associates.
\<close>

definition round_at :: "ulong \<Rightarrow> Round" where
  "round_at t =
     \<lparr>att_reconnect = never_associates, att_switch = never_associates,
      millis = t, loop_now = t\<rparr>"

definition globals_wifi_only :: "nat Globals" where
  "globals_wifi_only =
     \<lparr>networkFacade = Some (facade_both WIFI_ONLY False GPRS_STATE_DISABLED (Some WiFiInterface)),
      deviceState = DeviceState_init\<rparr>"

definition globals_on_gprs :: "nat Globals" where
  "globals_on_gprs =
     \<lparr>networkFacade = Some (facade_both WIFI_PREFERRED False GPRS_STATE_OPERATIONAL (Some GPRSInterface)),
      deviceState = DeviceState_init\<rparr>"

section \<open>Verified properties\<close>

subsection \<open>C5: retry classification\<close>

text \<open>
  Claim C5. For every integer status code, both transports' \<open>isRetryableError\<close> return
  true if and only if the status is at most 0, or is 408 or 429, or lies in 500..599.
  In particular 200, 400, 401, 403 and 404 are not retryable, and the two transports'
  classification functions agree on every input.
\<close>

theorem isRetryableError_classification:
  "WiFiManager_isRetryableError s = (s \<le> 0 \<or> s = 408 \<or> s = 429 \<or> (500 \<le> s \<and> s \<le> 599))
   \<and> GPRSManager_isRetryableError s = (s \<le> 0 \<or> s = 408 \<or> s = 429 \<or> (500 \<le> s \<and> s \<le> 599))
   \<and> GPRSManager_isRetryableError = WiFiManager_isRetryableError
   \<and> (\<forall>c \<in> {200, 400, 401, 403, 404}.
         \<not> WiFiManager_isRetryableError c \<and> \<not> GPRSManager_isRetryableError c)"
  by (auto simp: WiFiManager_isRetryableError_def GPRSManager_isRetryableError_def fun_eq_iff)

theorem isRetryableError_classification_witness:
  "WiFiManager_isRetryableError 503 \<and> GPRSManager_isRetryableError (-1)
   \<and> \<not> WiFiManager_isRetryableError 404 \<and> \<not> GPRSManager_isRetryableError 200"
  using isRetryableError_classification [of 503] isRetryableError_classification [of "-1"]
  by simp

subsection \<open>Helper lemmas on the cellular FSM\<close>




lemma registration_timeout_poll:
  assumes "currentGprsState g = GPRS_STATE_INIT_ATTACH_GPRS"
    and "\<not> isNetworkConnected obs" and "\<not> registrationOk obs"
    and "now - lastGprsStateTransitionTime g > GPRS_ATTACH_TIMEOUT_MS"
  shows "gprsAttachFailCount (updateFSM now obs g) = gprsAttachFailCount g + 1"
    and "currentGprsState (updateFSM now obs g) =
           (if gprsAttachFailCount g + 1 > GPRS_MAX_ATTACH_FAILURES
            then GPRS_STATE_ERROR_RESTART_MODEM else GPRS_STATE_INIT_ATTACH_GPRS)"
    and "lastGprsStateTransitionTime (updateFSM now obs g) = now"
  using assms
  by (auto simp: updateFSM_def handleGprsInitAttachGprs_def transitionToState_def Let_def
      getElapsedTimeInCurrentGprsState_def split: option.splits)

lemma attach_failure_poll:
  assumes "currentGprsState g = GPRS_STATE_INIT_ATTACH_GPRS"
    and "isNetworkConnected obs \<or> registrationOk obs"
    and "\<not> (isNetworkConnected obs \<and> isGprsConnected obs)" and "\<not> gprsConnect obs"
  shows "gprsAttachFailCount (updateFSM now obs g) = gprsAttachFailCount g + 1"
    and "currentGprsState (updateFSM now obs g) =
           (if gprsAttachFailCount g + 1 \<ge> GPRS_MAX_ATTACH_FAILURES
            then GPRS_STATE_ERROR_RESTART_MODEM else GPRS_STATE_INIT_ATTACH_GPRS)"
  using assms
  by (auto simp: updateFSM_def handleGprsInitAttachGprs_def transitionToState_def Let_def
      split: option.splits)

lemma registration_timeouts_stay:
  "currentGprsState g = GPRS_STATE_INIT_ATTACH_GPRS \<Longrightarrow>
   registration_timeouts (lastGprsStateTransitionTime g) ps \<Longrightarrow>
   unat (gprsAttachFailCount g) + length ps \<le> 5 \<Longrightarrow>
   currentGprsState (updateFSM_polls ps g) = GPRS_STATE_INIT_ATTACH_GPRS
   \<and> unat (gprsAttachFailCount (updateFSM_polls ps g)) = unat (gprsAttachFailCount g) + length ps
   \<and> (ps \<noteq> [] \<longrightarrow> lastGprsStateTransitionTime (updateFSM_polls ps g) = fst (last ps))"
proof (induction ps arbitrary: g)
  case Nil
  then show ?case by simp
next
  case (Cons p ps)
  obtain now obs where p: "p = (now, obs)" by (cases p)
  let ?g = "updateFSM now obs g"
  from Cons.prems p have obs: "\<not> isNetworkConnected obs" "\<not> registrationOk obs"
    "now - lastGprsStateTransitionTime g > GPRS_ATTACH_TIMEOUT_MS"
    "registration_timeouts now ps" by auto
  from Cons.prems have small: "unat (gprsAttachFailCount g) < 5" by simp
  have cnt: "gprsAttachFailCount ?g = gprsAttachFailCount g + 1"
    by (rule registration_timeout_poll(1) [OF Cons.prems(1) obs(1,2,3)])
  have ucnt: "unat (gprsAttachFailCount ?g) = unat (gprsAttachFailCount g) + 1"
    using small unfolding cnt by (simp add: unat_word_ariths)
  have "\<not> gprsAttachFailCount g + 1 > GPRS_MAX_ATTACH_FAILURES"
    using ucnt small unfolding cnt [symmetric] GPRS_MAX_ATTACH_FAILURES_def
    by (simp add: word_less_nat_alt)
  then have st: "currentGprsState ?g = GPRS_STATE_INIT_ATTACH_GPRS"
    using registration_timeout_poll(2) [OF Cons.prems(1) obs(1,2,3)] by simp
  have lt: "lastGprsStateTransitionTime ?g = now"
    by (rule registration_timeout_poll(3) [OF Cons.prems(1) obs(1,2,3)])
  have "currentGprsState (updateFSM_polls ps ?g) = GPRS_STATE_INIT_ATTACH_GPRS
   \<and> unat (gprsAttachFailCount (updateFSM_polls ps ?g)) = unat (gprsAttachFailCount ?g) + length ps
   \<and> (ps \<noteq> [] \<longrightarrow> lastGprsStateTransitionTime (updateFSM_polls ps ?g) = fst (last ps))"
    using Cons.IH [of ?g] st lt obs(4) ucnt Cons.prems(3) by simp
  then show ?case using p ucnt lt by (cases ps) auto
qed





lemmas example_defs = fsm_in_def GPRSManager_init_def obs_unregistered_def obs_attached_def
  WiFiManager_init_def

subsection \<open>C1: interface selection\<close>

text \<open>
  Claim C1. For every preference and every combination of availability and
  connected-status of the WiFi and GPRS managers, \<open>determineActiveInterface\<close> selects
  exactly the interface given by the section-4.1 table (an absent transport's handle is
  the null pointer, so selecting it selects none), and changes nothing else in the facade.
\<close>

theorem determineActiveInterface_table:
  "determineActiveInterface f =
     f\<lparr>activeInterface :=
         section_4_1_table (preference f) (wifi_handle f) (gprs_handle f)
           (wm_isConnected f) (gm_isConnected f)\<rparr>"
  by (cases "preference f"; cases "wifiManagerRaw f"; cases "gprsManagerRaw f")
     (simp_all add: determineActiveInterface_def section_4_1_table_def wifi_handle_def
        gprs_handle_def wm_isConnected_def gm_isConnected_def Let_def)

theorem determineActiveInterface_table_witness:
  "activeInterface (determineActiveInterface
      (facade_both WIFI_PREFERRED False GPRS_STATE_OPERATIONAL None)) = Some GPRSInterface
   \<and> activeInterface (determineActiveInterface
      (facade_both GPRS_PREFERRED True GPRS_STATE_RECONNECTING None)) = Some WiFiInterface"
  using determineActiveInterface_table [of "facade_both WIFI_PREFERRED False GPRS_STATE_OPERATIONAL None"]
    determineActiveInterface_table [of "facade_both GPRS_PREFERRED True GPRS_STATE_RECONNECTING None"]
  by (simp add: facade_both_def
      section_4_1_table_def wifi_handle_def gprs_handle_def wm_isConnected_def gm_isConnected_def
      WiFiManager_isConnected_def GPRSManager_isConnected_def example_defs)

subsection \<open>C3: registration timeouts in InitAttach\<close>

text \<open>
  Claim C3, as the code behaves. From InitAttach with a failure count of zero, after
  exactly \<open>GPRS_MAX_ATTACH_FAILURES\<close> consecutive registration timeouts the FSM is still
  in InitAttach (the count equals the ceiling, and the timeout branch escalates only when
  the count exceeds it); one more registration timeout moves it to ErrorRestartModem.
  The claim expects the transition after exactly \<open>GPRS_MAX_ATTACH_FAILURES\<close> timeouts.
\<close>

theorem registration_timeouts_escalate_one_late:
  assumes "currentGprsState g = GPRS_STATE_INIT_ATTACH_GPRS"
    and "gprsAttachFailCount g = 0"
    and "registration_timeouts (lastGprsStateTransitionTime g) (ps @ [(now, obs)])"
    and "length ps = unat GPRS_MAX_ATTACH_FAILURES"
  shows "currentGprsState (updateFSM_polls ps g) = GPRS_STATE_INIT_ATTACH_GPRS
       \<and> gprsAttachFailCount (updateFSM_polls ps g) = GPRS_MAX_ATTACH_FAILURES
       \<and> currentGprsState (updateFSM_polls (ps @ [(now, obs)]) g) = GPRS_STATE_ERROR_RESTART_MODEM"
proof -
  have app: "\<And>t qs. registration_timeouts t (qs @ [(now, obs)]) \<Longrightarrow>
       registration_timeouts t qs
       \<and> \<not> isNetworkConnected obs \<and> \<not> registrationOk obs
       \<and> now - (if qs = [] then t else fst (last qs)) > GPRS_ATTACH_TIMEOUT_MS"
  proof -
    fix t qs show "registration_timeouts t (qs @ [(now, obs)]) \<Longrightarrow>
       registration_timeouts t qs
       \<and> \<not> isNetworkConnected obs \<and> \<not> registrationOk obs
       \<and> now - (if qs = [] then t else fst (last qs)) > GPRS_ATTACH_TIMEOUT_MS"
      by (induction t qs rule: registration_timeouts.induct) auto
  qed
  have len: "length ps = 5" using assms(4) by (simp add: GPRS_MAX_ATTACH_FAILURES_def)
  then have ne: "ps \<noteq> []" by auto
  from app [OF assms(3)] ne have pre: "registration_timeouts (lastGprsStateTransitionTime g) ps"
    and o: "\<not> isNetworkConnected obs" "\<not> registrationOk obs"
    and late: "now - fst (last ps) > GPRS_ATTACH_TIMEOUT_MS" by auto
  let ?g = "updateFSM_polls ps g"
  from registration_timeouts_stay [OF assms(1) pre] assms(2) len ne
  have st: "currentGprsState ?g = GPRS_STATE_INIT_ATTACH_GPRS"
    and cnt: "unat (gprsAttachFailCount ?g) = 5"
    and tm: "lastGprsStateTransitionTime ?g = fst (last ps)" by auto
  have "gprsAttachFailCount ?g = of_nat (unat (gprsAttachFailCount ?g))" by simp
  then have cnt5: "gprsAttachFailCount ?g = 5" unfolding cnt by simp
  have split: "updateFSM_polls (ps @ [(now, obs)]) g = updateFSM now obs ?g"
    by (induction ps arbitrary: g) auto
  have "currentGprsState (updateFSM now obs ?g) = GPRS_STATE_ERROR_RESTART_MODEM"
    using registration_timeout_poll(2) [OF st o, of now] late tm cnt5
    by (simp add: GPRS_MAX_ATTACH_FAILURES_def)
  with st cnt5 split show ?thesis by (simp add: GPRS_MAX_ATTACH_FAILURES_def)
qed

theorem registration_timeouts_escalate_one_late_witness:
  "currentGprsState (updateFSM_polls five_timeouts (fsm_in GPRS_STATE_INIT_ATTACH_GPRS))
     = GPRS_STATE_INIT_ATTACH_GPRS
   \<and> gprsAttachFailCount (updateFSM_polls five_timeouts (fsm_in GPRS_STATE_INIT_ATTACH_GPRS)) = 5
   \<and> currentGprsState (updateFSM_polls (five_timeouts @ [(360006, obs_unregistered)])
        (fsm_in GPRS_STATE_INIT_ATTACH_GPRS)) = GPRS_STATE_ERROR_RESTART_MODEM"
proof -
  have h1: "currentGprsState (fsm_in GPRS_STATE_INIT_ATTACH_GPRS) = GPRS_STATE_INIT_ATTACH_GPRS"
    and h2: "gprsAttachFailCount (fsm_in GPRS_STATE_INIT_ATTACH_GPRS) = 0"
    by (simp_all add: example_defs)
  have h3: "registration_timeouts (lastGprsStateTransitionTime (fsm_in GPRS_STATE_INIT_ATTACH_GPRS))
              (five_timeouts @ [(360006, obs_unregistered)])"
    by (simp add: example_defs five_timeouts_def GPRS_ATTACH_TIMEOUT_MS_def)
  have h4: "length five_timeouts = unat GPRS_MAX_ATTACH_FAILURES"
    by (simp add: five_timeouts_def GPRS_MAX_ATTACH_FAILURES_def)
  from registration_timeouts_escalate_one_late [OF h1 h2 h3 h4]
  show ?thesis by (simp add: GPRS_MAX_ATTACH_FAILURES_def)
qed

subsection \<open>C10: disconnect and the cellular FSM state\<close>

text \<open>
  Claim C10. \<open>GPRSManager::disconnect()\<close> leaves the connection FSM's state field
  unchanged, so \<open>GPRSManager::isConnected()\<close>, which is true exactly in Operational,
  is still true right after a disconnect made in Operational. \<open>NetworkFacade::disconnect()\<close>
  delegates to it and clears the active interface, after which
  \<open>NetworkFacade::isConnected()\<close> takes its fallback path and reports the facade as
  connected.
\<close>

theorem disconnect_keeps_fsm_state:
  "currentGprsState (GPRSManager_disconnect g) = currentGprsState g
   \<and> GPRSManager_isConnected (GPRSManager_disconnect g)
       = (currentGprsState g = GPRS_STATE_OPERATIONAL)
   \<and> (gprsManagerRaw f = Some g' \<and> currentGprsState g' = GPRS_STATE_OPERATIONAL \<longrightarrow>
        Call_GPRS_disconnect \<in> set (calls (NetworkFacade_disconnect f))
        \<and> gm_isConnected (NetworkFacade_disconnect f)
        \<and> activeInterface (NetworkFacade_disconnect f) = None
        \<and> NetworkFacade_isConnected (NetworkFacade_disconnect f))"
  by (auto simp: GPRSManager_disconnect_def GPRSManager_isConnected_def
      NetworkFacade_disconnect_def NetworkFacade_isConnected_def gm_isConnected_def
      wm_isConnected_def gm_disconnect_if_connected_def wm_disconnect_if_connected_def
      WiFiManager_isConnected_def WiFiManager_disconnect_def
      split: option.splits)

theorem disconnect_keeps_fsm_state_witness:
  "GPRSManager_isConnected (GPRSManager_disconnect (fsm_in GPRS_STATE_OPERATIONAL))
   \<and> NetworkFacade_isConnected (NetworkFacade_disconnect
        (facade_both WIFI_PREFERRED True GPRS_STATE_OPERATIONAL (Some WiFiInterface)))"
proof -
  let ?f = "facade_both WIFI_PREFERRED True GPRS_STATE_OPERATIONAL (Some WiFiInterface)"
  have h: "gprsManagerRaw ?f = Some (fsm_in GPRS_STATE_OPERATIONAL)
           \<and> currentGprsState (fsm_in GPRS_STATE_OPERATIONAL) = GPRS_STATE_OPERATIONAL"
    by (simp add: facade_both_def example_defs)
  from disconnect_keeps_fsm_state
         [of "fsm_in GPRS_STATE_OPERATIONAL" ?f "fsm_in GPRS_STATE_OPERATIONAL"] h
  show ?thesis by (simp add: example_defs)
qed

subsection \<open>C9: transition timestamp and counter resets\<close>





subsection \<open>C2: the result of connect()\<close>

lemma connectWiFi_loop_result:
  "connectWiFi_loop att n w = (r, w') \<Longrightarrow>
   (r \<longrightarrow> WiFi_connected w') \<and> w' = w\<lparr>WiFi_connected := WiFi_connected w'\<rparr>
   \<and> (\<not> r \<longrightarrow> WiFi_connected w' = (if n \<le> MAX_CONNECT_RETRIES then False else WiFi_connected w))"
proof (induction att n w arbitrary: r w' rule: connectWiFi_loop.induct)
  case (1 att attempt w)
  show ?case
  proof (cases "attempt \<le> MAX_CONNECT_RETRIES")
    case False
    with "1.prems" show ?thesis by (simp add: connectWiFi_loop.simps)
  next
    case le: True
    show ?thesis
    proof (cases "att attempt")
      case True
      with le "1.prems" show ?thesis by (auto simp: connectWiFi_loop.simps)
    next
      case False
      with le "1.prems" have rec: "connectWiFi_loop att (attempt + 1) (w\<lparr>WiFi_connected := False\<rparr>) = (r, w')"
        by (simp add: connectWiFi_loop.simps)
      from "1.IH" [OF le False rec] le show ?thesis by auto
    qed
  qed
qed

lemma WiFiManager_connect_result:
  "WiFiManager_connect att w = (r, w') \<Longrightarrow>
   (r \<longrightarrow> WiFi_connected w') \<and> w' = w\<lparr>WiFi_connected := WiFi_connected w'\<rparr>
   \<and> (\<not> r \<and> w_ssid w \<noteq> [] \<longrightarrow> \<not> WiFi_connected w')"
  using connectWiFi_loop_result [of att 0 w r w']
  by (auto simp: WiFiManager_connect_def connectWiFi_def MAX_CONNECT_RETRIES_def split: if_splits)

lemma wm_connect_result:
  "wm_connect att f = (r, f') \<Longrightarrow>
   r = wifi_connect_ok att f
   \<and> (r \<longrightarrow> wm_isConnected f')
   \<and> gprsManagerRaw f' = gprsManagerRaw f \<and> preference f' = preference f
   \<and> activeInterface f' = activeInterface f
   \<and> (wifiManagerRaw f' = None) = (wifiManagerRaw f = None)
   \<and> calls f' = calls f @ (if wifiManagerRaw f = None then [] else [Call_WiFi_connect r])"
  using WiFiManager_connect_result [of att "the (wifiManagerRaw f)" r]
  by (auto simp: wm_connect_def wifi_connect_ok_def wm_isConnected_def WiFiManager_isConnected_def
      split: option.splits prod.splits)

lemma gm_connect_result:
  "gm_connect now f = (r, f') \<Longrightarrow>
   r = (gprsManagerRaw f \<noteq> None)
   \<and> wifiManagerRaw f' = wifiManagerRaw f \<and> preference f' = preference f
   \<and> activeInterface f' = activeInterface f
   \<and> (gprsManagerRaw f' = None) = (gprsManagerRaw f = None)
   \<and> calls f' = calls f @ (if gprsManagerRaw f = None then [] else [Call_GPRS_connect True])"
  by (auto simp: gm_connect_def GPRSManager_connect_def split: option.splits prod.splits)


lemma determineActiveInterface_idem:
  "determineActiveInterface (determineActiveInterface f) = determineActiveInterface f"
  by (simp add: determineActiveInterface_def wm_isConnected_def gm_isConnected_def Let_def)

lemma determineActiveInterface_frame:
  "wifiManagerRaw (determineActiveInterface f) = wifiManagerRaw f"
  "gprsManagerRaw (determineActiveInterface f) = gprsManagerRaw f"
  "preference (determineActiveInterface f) = preference f"
  "calls (determineActiveInterface f) = calls f"
  "wm_isConnected (determineActiveInterface f) = wm_isConnected f"
  "gm_isConnected (determineActiveInterface f) = gm_isConnected f"
  by (simp_all add: determineActiveInterface_def wm_isConnected_def gm_isConnected_def Let_def)

lemma wm_disconnect_if_connected_frame:
  "gprsManagerRaw (wm_disconnect_if_connected f) = gprsManagerRaw f"
  "preference (wm_disconnect_if_connected f) = preference f"
  "(wifiManagerRaw (wm_disconnect_if_connected f) = None) = (wifiManagerRaw f = None)"
  by (auto simp: wm_disconnect_if_connected_def split: option.splits)

lemma gm_disconnect_if_connected_frame:
  "wifiManagerRaw (gm_disconnect_if_connected f) = wifiManagerRaw f"
  "preference (gm_disconnect_if_connected f) = preference f"
  "(gprsManagerRaw (gm_disconnect_if_connected f) = None) = (gprsManagerRaw f = None)"
  "wm_isConnected (gm_disconnect_if_connected f) = wm_isConnected f"
  by (auto simp: gm_disconnect_if_connected_def wm_isConnected_def split: option.splits)

text \<open>
  Claim C2. \<open>NetworkFacade::connect()\<close> is to return true if and only if some
  transport is connected when it returns; its documentation in \<open>NetworkFacade.h\<close>
  promises the same, and \<open>startAsyncHttpRequest\<close> and \<open>setup()\<close> rely on it. The
  code breaks the promise: with preference WiFi-preferred, WiFi failing to associate
  and the cellular FSM still Disabled, \<open>connect()\<close> returns true, because
  \<open>GPRSManager::connect()\<close> only starts the FSM and reports true, while neither
  transport, nor the facade, is connected.
\<close>

theorem connect_true_while_disconnected:
  "fst (NetworkFacade_connect never_associates 1000
          (facade_both WIFI_PREFERRED False GPRS_STATE_DISABLED (Some WiFiInterface)))
   \<and> \<not> wm_isConnected (snd (NetworkFacade_connect never_associates 1000
          (facade_both WIFI_PREFERRED False GPRS_STATE_DISABLED (Some WiFiInterface))))
   \<and> \<not> gm_isConnected (snd (NetworkFacade_connect never_associates 1000
          (facade_both WIFI_PREFERRED False GPRS_STATE_DISABLED (Some WiFiInterface))))
   \<and> \<not> NetworkFacade_isConnected (snd (NetworkFacade_connect never_associates 1000
          (facade_both WIFI_PREFERRED False GPRS_STATE_DISABLED (Some WiFiInterface))))"
  by (simp add: NetworkFacade_connect_def facade_both_def example_defs wm_connect_def
      gm_connect_def WiFiManager_connect_def connectWiFi_def connectWiFi_loop.simps
      MAX_CONNECT_RETRIES_def never_associates_def wm_disconnect_if_connected_def
      WiFiManager_isConnected_def GPRSManager_connect_def transitionToState_def
      determineActiveInterface_def wm_isConnected_def gm_isConnected_def
      GPRSManager_isConnected_def NetworkFacade_isConnected_def Let_def)


subsection \<open>C7: explicit switches\<close>

lemma gm_disconnect_if_connected_calls:
  "calls (gm_disconnect_if_connected f)
     = calls f @ (if gm_isConnected f then [Call_GPRS_disconnect] else [])"
  "activeInterface (gm_disconnect_if_connected f) = activeInterface f"
  by (auto simp: gm_disconnect_if_connected_def gm_isConnected_def split: option.splits)

lemma wm_disconnect_if_connected_calls:
  "calls (wm_disconnect_if_connected f)
     = calls f @ (if wm_isConnected f then [Call_WiFi_disconnect] else [])"
  "activeInterface (wm_disconnect_if_connected f) = activeInterface f"
  by (auto simp: wm_disconnect_if_connected_def wm_isConnected_def split: option.splits)

lemma gm_isConnected_cong:
  "gprsManagerRaw f' = gprsManagerRaw f \<Longrightarrow> gm_isConnected f' = gm_isConnected f"
  by (simp add: gm_isConnected_def)

lemma wm_isConnected_cong:
  "wifiManagerRaw f' = wifiManagerRaw f \<Longrightarrow> wm_isConnected f' = wm_isConnected f"
  by (simp add: wm_isConnected_def)


lemma switchToWiFi_result:
  "fst (switchToWiFi att f) = wifi_connect_ok att f"
  "preference (snd (switchToWiFi att f)) = preference f"
  "calls (snd (switchToWiFi att f)) =
     calls f @
       (if wifiManagerRaw f = None then []
        else if wifi_connect_ok att f
        then Call_WiFi_connect True # (if gm_isConnected f then [Call_GPRS_disconnect] else [])
        else [Call_WiFi_connect False])"
  "\<not> fst (switchToWiFi att f) \<Longrightarrow>
     gprsManagerRaw (snd (switchToWiFi att f)) = gprsManagerRaw f"
  "wifiManagerRaw f = None \<Longrightarrow> snd (switchToWiFi att f) = f"
  "wifiManagerRaw f \<noteq> None \<Longrightarrow>
     determineActiveInterface (snd (switchToWiFi att f)) = snd (switchToWiFi att f)"
proof -
  obtain ok f1 where w: "wm_connect att f = (ok, f1)" by (cases "wm_connect att f")
  note r = wm_connect_result [OF w]
  have g: "gm_isConnected f1 = gm_isConnected f" using r gm_isConnected_cong [of f1 f] by simp
  show "fst (switchToWiFi att f) = wifi_connect_ok att f"
    using r by (simp add: switchToWiFi_def wifi_connect_ok_def w)
  show "preference (snd (switchToWiFi att f)) = preference f"
    using r by (simp add: switchToWiFi_def determineActiveInterface_frame
        gm_disconnect_if_connected_frame w)
  show "calls (snd (switchToWiFi att f)) =
     calls f @
       (if wifiManagerRaw f = None then []
        else if wifi_connect_ok att f
        then Call_WiFi_connect True # (if gm_isConnected f then [Call_GPRS_disconnect] else [])
        else [Call_WiFi_connect False])"
    using r g by (simp add: switchToWiFi_def determineActiveInterface_frame
        gm_disconnect_if_connected_calls w)
  show "\<not> fst (switchToWiFi att f) \<Longrightarrow>
     gprsManagerRaw (snd (switchToWiFi att f)) = gprsManagerRaw f"
    using r by (simp add: switchToWiFi_def determineActiveInterface_frame w split: if_splits)
  show "wifiManagerRaw f = None \<Longrightarrow> snd (switchToWiFi att f) = f"
    by (simp add: switchToWiFi_def)
  show "wifiManagerRaw f \<noteq> None \<Longrightarrow>
     determineActiveInterface (snd (switchToWiFi att f)) = snd (switchToWiFi att f)"
    by (auto simp: switchToWiFi_def w determineActiveInterface_idem)
qed

lemma switchToWiFi_keeps_connected_GPRS:
  assumes "\<not> fst (switchToWiFi att f)"
    and "activeInterface f = Some GPRSInterface" and "gm_isConnected f"
    and "\<not> wm_isConnected (snd (switchToWiFi att f))" and "preference f \<noteq> WIFI_ONLY"
  shows "activeInterface (snd (switchToWiFi att f)) = Some GPRSInterface"
proof (cases "wifiManagerRaw f")
  case None
  then show ?thesis using assms(2) by (simp add: switchToWiFi_def)
next
  case (Some w0)
  obtain ok f1 where w: "wm_connect att f = (ok, f1)" by (cases "wm_connect att f")
  note r = wm_connect_result [OF w]
  from assms(1) Some have nok: "\<not> ok" by (simp add: switchToWiFi_def w split: if_splits)
  then have f': "snd (switchToWiFi att f) = determineActiveInterface f1"
    using Some by (simp add: switchToWiFi_def w)
  have g: "gm_isConnected f1" using r assms(3) gm_isConnected_cong [of f1 f] by simp
  have nw: "\<not> wm_isConnected f1" using assms(4) by (simp add: f' determineActiveInterface_frame)
  have p: "preference f1 \<noteq> WIFI_ONLY" using r assms(5) by simp
  have gp: "gprsManagerRaw f1 \<noteq> None" using g by (auto simp: gm_isConnected_def split: option.splits)
  show ?thesis unfolding f' using g nw p gp
    by (cases "preference f1") (simp_all add: determineActiveInterface_def Let_def)
qed

lemma switchToWiFi_connected:
  "fst (switchToWiFi att f) \<Longrightarrow> wm_isConnected (snd (switchToWiFi att f))"
proof -
  assume a: "fst (switchToWiFi att f)"
  obtain ok f1 where w: "wm_connect att f = (ok, f1)" by (cases "wm_connect att f")
  note r = wm_connect_result [OF w]
  from a obtain w0 where p: "wifiManagerRaw f = Some w0" and ok: "ok"
    by (auto simp: switchToWiFi_def w split: if_splits)
  from r ok have up: "wm_isConnected f1" by simp
  show ?thesis using up
    by (simp add: switchToWiFi_def w p ok determineActiveInterface_frame
        gm_disconnect_if_connected_frame)
qed

lemma switchToGPRS_result:
  "preference (snd (switchToGPRS now f)) = preference f"
  "calls (snd (switchToGPRS now f)) =
     calls f @
       (if gprsManagerRaw f = None then []
        else Call_GPRS_connect (fst (switchToGPRS now f))
             # (if fst (switchToGPRS now f) \<and> wm_isConnected f then [Call_WiFi_disconnect] else []))"
  "gprsManagerRaw f = None \<Longrightarrow> \<not> fst (switchToGPRS now f) \<and> snd (switchToGPRS now f) = f"
  "\<not> fst (switchToGPRS now f) \<Longrightarrow>
     wifiManagerRaw (snd (switchToGPRS now f)) = wifiManagerRaw f"
  "gprsManagerRaw f \<noteq> None \<Longrightarrow>
     determineActiveInterface (snd (switchToGPRS now f)) = snd (switchToGPRS now f)"
proof -
  obtain ok f1 where w: "gm_connect now f = (ok, f1)" by (cases "gm_connect now f")
  note r = gm_connect_result [OF w]
  have g: "wm_isConnected f1 = wm_isConnected f" using r wm_isConnected_cong [of f1 f] by simp
  show "preference (snd (switchToGPRS now f)) = preference f"
    using r by (simp add: switchToGPRS_def determineActiveInterface_frame
        wm_disconnect_if_connected_frame w)
  show "calls (snd (switchToGPRS now f)) =
     calls f @
       (if gprsManagerRaw f = None then []
        else Call_GPRS_connect (fst (switchToGPRS now f))
             # (if fst (switchToGPRS now f) \<and> wm_isConnected f then [Call_WiFi_disconnect] else []))"
    using r g by (simp add: switchToGPRS_def determineActiveInterface_frame
        wm_disconnect_if_connected_calls w)
  show "gprsManagerRaw f = None \<Longrightarrow> \<not> fst (switchToGPRS now f) \<and> snd (switchToGPRS now f) = f"
    by (simp add: switchToGPRS_def)
  show "\<not> fst (switchToGPRS now f) \<Longrightarrow>
     wifiManagerRaw (snd (switchToGPRS now f)) = wifiManagerRaw f"
    using r by (simp add: switchToGPRS_def determineActiveInterface_frame w split: if_splits)
  show "gprsManagerRaw f \<noteq> None \<Longrightarrow>
     determineActiveInterface (snd (switchToGPRS now f)) = snd (switchToGPRS now f)"
    by (auto simp: switchToGPRS_def w determineActiveInterface_idem)
qed


text \<open>
  Claim C7 says that when the target's \<open>connect()\<close> fails the previously active
  interface remains active. Here GPRS is the active interface, its FSM has since moved
  to ConnectionLost, and WiFi fails to associate: \<open>switchToWiFi()\<close> returns false and
  re-derives the active interface, which becomes WiFi (the attempt target of
  WiFi-preferred when nothing is connected).
\<close>

theorem failed_switch_moves_active_interface:
  "activeInterface (facade_both WIFI_PREFERRED False GPRS_STATE_CONNECTION_LOST (Some GPRSInterface))
     = Some GPRSInterface
   \<and> \<not> fst (switchToWiFi never_associates
          (facade_both WIFI_PREFERRED False GPRS_STATE_CONNECTION_LOST (Some GPRSInterface)))
   \<and> activeInterface (snd (switchToWiFi never_associates
          (facade_both WIFI_PREFERRED False GPRS_STATE_CONNECTION_LOST (Some GPRSInterface))))
     = Some WiFiInterface"
  by (simp add: switchToWiFi_def facade_both_def example_defs wm_connect_def
      WiFiManager_connect_def connectWiFi_def connectWiFi_loop.simps
      MAX_CONNECT_RETRIES_def never_associates_def
      determineActiveInterface_def wm_isConnected_def gm_isConnected_def
      WiFiManager_isConnected_def GPRSManager_isConnected_def Let_def)

text \<open>
  Claim C7, amended. \<open>switchToWiFi\<close> and \<open>switchToGPRS\<close> call the target's
  \<open>connect()\<close> first; when the switch fails, because the target's \<open>connect()\<close>
  fails or the target manager is absent, the other transport is not disconnected; and
  the stored preference is unchanged in both outcomes. \<open>switchToWiFi\<close> succeeds
  exactly when WiFi's \<open>connect()\<close> does, WiFi is then connected, and GPRS is
  disconnected only after that. With the target manager absent nothing is called and
  nothing changes, the active interface included. Otherwise the active interface is
  re-derived by \<open>determineActiveInterface\<close>, also after a failed \<open>connect()\<close>: a
  failed \<open>switchToWiFi\<close> keeps an active GPRS interface whenever GPRS is still
  connected, WiFi is not, and the preference is not WiFi-only.
\<close>

theorem switch_connects_target_first:
  "calls (snd (switchToWiFi att f)) =
     calls f @
       (if wifiManagerRaw f = None then []
        else if wifi_connect_ok att f
        then Call_WiFi_connect True # (if gm_isConnected f then [Call_GPRS_disconnect] else [])
        else [Call_WiFi_connect False])
   \<and> fst (switchToWiFi att f) = wifi_connect_ok att f
   \<and> (fst (switchToWiFi att f) \<longrightarrow> wm_isConnected (snd (switchToWiFi att f)))
   \<and> preference (snd (switchToWiFi att f)) = preference f
   \<and> (\<not> fst (switchToWiFi att f) \<longrightarrow>
        gprsManagerRaw (snd (switchToWiFi att f)) = gprsManagerRaw f)
   \<and> (wifiManagerRaw f = None \<longrightarrow> snd (switchToWiFi att f) = f)
   \<and> (wifiManagerRaw f \<noteq> None \<longrightarrow>
        determineActiveInterface (snd (switchToWiFi att f)) = snd (switchToWiFi att f))
   \<and> (\<not> fst (switchToWiFi att f) \<and> activeInterface f = Some GPRSInterface
        \<and> gm_isConnected f \<and> \<not> wm_isConnected (snd (switchToWiFi att f))
        \<and> preference f \<noteq> WIFI_ONLY \<longrightarrow>
        activeInterface (snd (switchToWiFi att f)) = Some GPRSInterface)
   \<and> calls (snd (switchToGPRS now f)) = calls f @ calls_made f (snd (switchToGPRS now f))
   \<and> (gprsManagerRaw f \<noteq> None \<longrightarrow>
        take 1 (calls_made f (snd (switchToGPRS now f)))
          = [Call_GPRS_connect (fst (switchToGPRS now f))])
   \<and> (\<not> fst (switchToGPRS now f) \<longrightarrow>
        wifiManagerRaw (snd (switchToGPRS now f)) = wifiManagerRaw f
        \<and> Call_WiFi_disconnect \<notin> set (calls_made f (snd (switchToGPRS now f))))
   \<and> preference (snd (switchToGPRS now f)) = preference f
   \<and> (gprsManagerRaw f = None \<longrightarrow>
        \<not> fst (switchToGPRS now f) \<and> snd (switchToGPRS now f) = f)
   \<and> (gprsManagerRaw f \<noteq> None \<longrightarrow>
        determineActiveInterface (snd (switchToGPRS now f)) = snd (switchToGPRS now f))"
proof -
  have b: "\<not> fst (switchToWiFi att f) \<and> activeInterface f = Some GPRSInterface
        \<and> gm_isConnected f \<and> \<not> wm_isConnected (snd (switchToWiFi att f))
        \<and> preference f \<noteq> WIFI_ONLY \<longrightarrow>
        activeInterface (snd (switchToWiFi att f)) = Some GPRSInterface"
    using switchToWiFi_keeps_connected_GPRS [of att f] by (intro impI) (elim conjE)
  have c: "\<not> fst (switchToWiFi att f) \<longrightarrow>
        gprsManagerRaw (snd (switchToWiFi att f)) = gprsManagerRaw f"
    using switchToWiFi_result(4) [where f = f and att = att] by (rule impI)
  have d: "wifiManagerRaw f = None \<longrightarrow> snd (switchToWiFi att f) = f"
    using switchToWiFi_result(5) [where f = f and att = att] by (rule impI)
  have e: "wifiManagerRaw f \<noteq> None \<longrightarrow>
        determineActiveInterface (snd (switchToWiFi att f)) = snd (switchToWiFi att f)"
    using switchToWiFi_result(6) [where f = f and att = att] by (rule impI)
  have k: "fst (switchToWiFi att f) \<longrightarrow> wm_isConnected (snd (switchToWiFi att f))"
    using switchToWiFi_connected [of att f] by (rule impI)
  note tr = switchToGPRS_result(2) [where f = f and now = now]
  from tr obtain ys where ys: "calls (snd (switchToGPRS now f)) = calls f @ ys" by blast
  have g1: "calls (snd (switchToGPRS now f)) = calls f @ calls_made f (snd (switchToGPRS now f))"
    by (simp add: calls_made_def ys)
  have g2: "gprsManagerRaw f \<noteq> None \<longrightarrow>
        take 1 (calls_made f (snd (switchToGPRS now f)))
          = [Call_GPRS_connect (fst (switchToGPRS now f))]"
    unfolding calls_made_def by (subst tr) simp
  have g3: "\<not> fst (switchToGPRS now f) \<longrightarrow>
        wifiManagerRaw (snd (switchToGPRS now f)) = wifiManagerRaw f
        \<and> Call_WiFi_disconnect \<notin> set (calls_made f (snd (switchToGPRS now f)))"
    unfolding calls_made_def using switchToGPRS_result(4) [where f = f and now = now]
    by (subst tr) simp
  have g4: "gprsManagerRaw f = None \<longrightarrow>
        \<not> fst (switchToGPRS now f) \<and> snd (switchToGPRS now f) = f"
    using switchToGPRS_result(3) [where f = f and now = now] by (rule impI)
  have g5: "gprsManagerRaw f \<noteq> None \<longrightarrow>
        determineActiveInterface (snd (switchToGPRS now f)) = snd (switchToGPRS now f)"
    using switchToGPRS_result(5) [where f = f and now = now] by (rule impI)
  show ?thesis
    by (intro conjI switchToWiFi_result(1,2,3) switchToGPRS_result(1) b c d e k g1 g2 g3 g4 g5)
qed


theorem switch_connects_target_first_witness:
  "\<not> fst (switchToWiFi never_associates
          (facade_both WIFI_PREFERRED False GPRS_STATE_OPERATIONAL (Some GPRSInterface)))
   \<and> calls (snd (switchToWiFi never_associates
          (facade_both WIFI_PREFERRED False GPRS_STATE_OPERATIONAL (Some GPRSInterface))))
     = [Call_WiFi_connect False]
   \<and> activeInterface (snd (switchToWiFi never_associates
          (facade_both WIFI_PREFERRED False GPRS_STATE_OPERATIONAL (Some GPRSInterface))))
     = Some GPRSInterface
   \<and> calls (snd (switchToWiFi associates_at_once
          (facade_both WIFI_PREFERRED False GPRS_STATE_OPERATIONAL (Some GPRSInterface))))
     = [Call_WiFi_connect True, Call_GPRS_disconnect]
   \<and> wm_isConnected (snd (switchToWiFi associates_at_once
          (facade_both WIFI_PREFERRED False GPRS_STATE_OPERATIONAL (Some GPRSInterface))))
   \<and> snd (switchToGPRS 0 facade_no_gprs) = facade_no_gprs
   \<and> wm_isConnected (snd (switchToGPRS 0 facade_no_gprs))
   \<and> take 1 (calls_made
               (facade_both WIFI_PREFERRED False GPRS_STATE_OPERATIONAL (Some GPRSInterface))
               (snd (switchToGPRS 0
                 (facade_both WIFI_PREFERRED False GPRS_STATE_OPERATIONAL (Some GPRSInterface)))))
     = [Call_GPRS_connect True]"
proof -
  let ?f = "facade_both WIFI_PREFERRED False GPRS_STATE_OPERATIONAL (Some GPRSInterface)"
  have h: "\<not> wifi_connect_ok never_associates ?f" "wifi_connect_ok associates_at_once ?f"
    "wifiManagerRaw ?f \<noteq> None" "calls ?f = []"
    "activeInterface ?f = Some GPRSInterface" "gm_isConnected ?f" "preference ?f \<noteq> WIFI_ONLY"
    "gprsManagerRaw ?f \<noteq> None"
    by (simp_all add: wifi_connect_ok_def facade_both_def example_defs WiFiManager_connect_def
        connectWiFi_def connectWiFi_loop.simps MAX_CONNECT_RETRIES_def never_associates_def
        associates_at_once_def gm_isConnected_def GPRSManager_isConnected_def)
  have down: "\<not> wm_isConnected (snd (switchToWiFi never_associates ?f))"
    by (simp add: switchToWiFi_def facade_both_def example_defs wm_connect_def
      WiFiManager_connect_def connectWiFi_def connectWiFi_loop.simps
      MAX_CONNECT_RETRIES_def never_associates_def
      determineActiveInterface_def wm_isConnected_def gm_isConnected_def
      WiFiManager_isConnected_def GPRSManager_isConnected_def Let_def)
  have n: "gprsManagerRaw facade_no_gprs = None" "wm_isConnected facade_no_gprs"
    by (simp_all add: facade_no_gprs_def facade_both_def wm_isConnected_def
        WiFiManager_isConnected_def example_defs)
  have t: "fst (switchToGPRS 0 ?f)"
    by (simp add: switchToGPRS_def facade_both_def gm_connect_def GPRSManager_connect_def)
  note a = switch_connects_target_first [of never_associates ?f 0]
  note b = switch_connects_target_first [of associates_at_once ?f 0]
  note c = switch_connects_target_first [of never_associates facade_no_gprs 0]
  have "\<not> fst (switchToWiFi never_associates ?f)
     \<and> calls (snd (switchToWiFi never_associates ?f)) = [Call_WiFi_connect False]
     \<and> activeInterface (snd (switchToWiFi never_associates ?f)) = Some GPRSInterface
     \<and> take 1 (calls_made ?f (snd (switchToGPRS 0 ?f))) = [Call_GPRS_connect True]"
    using a h down t by simp
  moreover have "calls (snd (switchToWiFi associates_at_once ?f))
       = [Call_WiFi_connect True, Call_GPRS_disconnect]
     \<and> wm_isConnected (snd (switchToWiFi associates_at_once ?f))"
    using b h by simp
  moreover have "snd (switchToGPRS 0 facade_no_gprs) = facade_no_gprs
     \<and> wm_isConnected (snd (switchToGPRS 0 facade_no_gprs))"
    using c n by simp
  ultimately show ?thesis by blast
qed


subsection \<open>C4: processing a response\<close>

text \<open>
  Claim C4 says that for every status outside 200..299 the caller's callback is never
  invoked. The cellular transport does invoke it: with status 404, a callback and a
  body that parses, a poll in \<open>PROCESSING_RESPONSE\<close> (request active and within its
  overall timeout, connection FSM Operational) calls the callback once, and ignores
  what it returns, before going to the error state.
\<close>

theorem GPRS_callback_invoked_on_error_status:
  "g_cbLog (gprs_processing 404 (Some accept_any) ''{}'') = []
   \<and> map_option g_cbLog
        (GPRSManager_updateHttpOperations deserialize_nonempty 1000 client_quiet
           (gprs_processing 404 (Some accept_any) ''{}'')) = Some [2]
   \<and> map_option g_currentHttpState
        (GPRSManager_updateHttpOperations deserialize_nonempty 1000 client_quiet
           (gprs_processing 404 (Some accept_any) ''{}'')) = Some GPRS_ERROR"
  by (simp add: GPRSManager_updateHttpOperations_def GPRSManager_PROCESSING_RESPONSE_def
      gprs_processing_def GPRSManager_init_def deserialize_nonempty_def
      GPRS_HTTP_TOTAL_TIMEOUT_MS_def)

lemma WiFi_processing_2xx:
  assumes "200 \<le> w_httpStatusCode w" "w_httpStatusCode w < 300"
  shows "w_asyncCb w = None \<Longrightarrow>
           WiFiManager_PROCESSING_RESPONSE dj obs w = w\<lparr>w_currentHttpState := WiFi_COMPLETE\<rparr>"
    and "w_asyncCb w = Some cb \<Longrightarrow> dj (http_getString obs) = None \<Longrightarrow>
           WiFiManager_PROCESSING_RESPONSE dj obs w
             = w\<lparr>w_jsonDoc := None, w_currentHttpState := WiFi_ERROR\<rparr>"
    and "w_asyncCb w = Some cb \<Longrightarrow> dj (http_getString obs) = Some doc \<Longrightarrow>
           WiFiManager_PROCESSING_RESPONSE dj obs w
             = w\<lparr>w_jsonDoc := Some doc, w_cbLog := w_cbLog w @ [doc],
                  w_currentHttpState := (if cb doc then WiFi_COMPLETE else WiFi_ERROR)\<rparr>"
  using assms by (simp_all add: WiFiManager_PROCESSING_RESPONSE_def)

lemma WiFi_processing_other:
  assumes "\<not> (200 \<le> w_httpStatusCode w \<and> w_httpStatusCode w < 300)"
  shows "WiFiManager_PROCESSING_RESPONSE dj obs w = w\<lparr>w_currentHttpState := WiFi_ERROR\<rparr>"
  using assms by (auto simp: WiFiManager_PROCESSING_RESPONSE_def)

lemma GPRS_processing_2xx:
  assumes "200 \<le> gprsHttpStatusCode g" "gprsHttpStatusCode g < 300"
  shows "g_asyncCb g = None \<Longrightarrow>
           GPRSManager_PROCESSING_RESPONSE dj g = g\<lparr>g_currentHttpState := GPRS_COMPLETE\<rparr>"
    and "g_asyncCb g = Some cb \<Longrightarrow> dj (gprsResponseBuffer g) = None \<Longrightarrow>
           GPRSManager_PROCESSING_RESPONSE dj g
             = g\<lparr>g_jsonDoc := None, g_currentHttpState := GPRS_ERROR\<rparr>"
    and "g_asyncCb g = Some cb \<Longrightarrow> dj (gprsResponseBuffer g) = Some doc \<Longrightarrow>
           GPRSManager_PROCESSING_RESPONSE dj g
             = g\<lparr>g_jsonDoc := Some doc, g_cbLog := g_cbLog g @ [doc],
                  g_currentHttpState := (if cb doc then GPRS_COMPLETE else GPRS_ERROR)\<rparr>"
  using assms by (simp_all add: GPRSManager_PROCESSING_RESPONSE_def)

lemma GPRS_processing_other:
  assumes "\<not> (200 \<le> gprsHttpStatusCode g \<and> gprsHttpStatusCode g < 300)"
  shows "g_currentHttpState (GPRSManager_PROCESSING_RESPONSE dj g) = GPRS_ERROR"
    and "gprsHttpStatusCode (GPRSManager_PROCESSING_RESPONSE dj g) = gprsHttpStatusCode g"
    and "g_cbLog (GPRSManager_PROCESSING_RESPONSE dj g) =
           g_cbLog g @
             (case (g_asyncCb g, dj (gprsResponseBuffer g)) of
                (Some cb, Some doc) \<Rightarrow> if gprsHttpStatusCode g \<noteq> 0 then [doc] else []
              | _ \<Rightarrow> [])"
  using assms
  by (auto simp: GPRSManager_PROCESSING_RESPONSE_def split: option.splits)


lemma processing_keeps_status:
  "w_httpStatusCode (WiFiManager_PROCESSING_RESPONSE dj obs w) = w_httpStatusCode w"
  "gprsHttpStatusCode (GPRSManager_PROCESSING_RESPONSE dj g) = gprsHttpStatusCode g"
  by (auto simp: WiFiManager_PROCESSING_RESPONSE_def GPRSManager_PROCESSING_RESPONSE_def
      split: option.splits)

lemma GPRS_poll_serves:
  assumes "g_asyncOperationActive g" and "currentGprsState g = GPRS_STATE_OPERATIONAL"
  shows "g_currentHttpState g = GPRS_PROCESSING_RESPONSE \<Longrightarrow>
         now - g_asyncRequestStartTime g \<le> GPRS_HTTP_TOTAL_TIMEOUT_MS \<Longrightarrow>
           GPRSManager_updateHttpOperations dj now cobs g
             = Some (GPRSManager_PROCESSING_RESPONSE dj g)"
    and "g_currentHttpState g = GPRS_ERROR \<Longrightarrow>
           GPRSManager_updateHttpOperations dj now cobs g = Some (GPRSManager_ERROR now g)"
    and "g_currentHttpState g = GPRS_PROCESSING_RESPONSE \<Longrightarrow>
         now - g_asyncRequestStartTime g > GPRS_HTTP_TOTAL_TIMEOUT_MS \<Longrightarrow>
           GPRSManager_updateHttpOperations dj now cobs g
             = Some (GPRSManager_ERROR now (g\<lparr>g_currentHttpState := GPRS_ERROR\<rparr>))"
  using assms
  by (simp_all add: GPRSManager_updateHttpOperations_def not_less [symmetric])

lemma GPRS_poll_paused:
  assumes "g_asyncOperationActive g" and "currentGprsState g \<noteq> GPRS_STATE_OPERATIONAL"
  shows "g_currentHttpState g = GPRS_PROCESSING_RESPONSE \<Longrightarrow>
           GPRSManager_updateHttpOperations dj now cobs g
             = Some (g\<lparr>g_currentHttpState := GPRS_ERROR\<rparr>)"
    and "g_currentHttpState g = GPRS_ERROR \<Longrightarrow>
           GPRSManager_updateHttpOperations dj now cobs g = Some g"
  using assms by (simp_all add: GPRSManager_updateHttpOperations_def)

text \<open>
  Claim C4, amended. In \<open>PROCESSING_RESPONSE\<close> of either transport the status code is
  preserved. For a status in 200..299: without a callback the request completes; with
  a callback the body is parsed, a parse failure goes to the error state without
  invoking the callback, and a parse success invokes the callback once and completes
  or fails as the callback says. For any other status the FSM goes to the error state,
  whose retry decision classifies that same status; the local-network transport never
  invokes the callback there, while the cellular transport invokes it once, ignoring
  its result, exactly when a callback is set, the status is not 0 and the body parses.

  These are the steps \<open>updateHttpOperations\<close> takes in those two states while the
  request is active and, in \<open>PROCESSING_RESPONSE\<close>, within its overall timeout (30 s
  for the local-network transport, \<open>GPRS_HTTP_TOTAL_TIMEOUT_MS\<close> for the cellular
  one); the cellular transport takes them only while its connection FSM is
  Operational. A poll without an active request changes nothing. A poll that finds
  the request timed out in \<open>PROCESSING_RESPONSE\<close> takes the error step instead,
  without parsing the response or invoking the callback. A poll of the cellular
  transport while its connection FSM is not Operational puts a request found in
  \<open>PROCESSING_RESPONSE\<close> in the error state, again without parsing or callback, and
  leaves a request found in the error state where it is.
\<close>

theorem processing_response_outcomes:
  "w_httpStatusCode (WiFiManager_PROCESSING_RESPONSE dj obs w) = w_httpStatusCode w
   \<and> gprsHttpStatusCode (GPRSManager_PROCESSING_RESPONSE dj g) = gprsHttpStatusCode g
   \<and> (200 \<le> w_httpStatusCode w \<and> w_httpStatusCode w < 300 \<longrightarrow>
        (w_asyncCb w = None \<longrightarrow>
           w_currentHttpState (WiFiManager_PROCESSING_RESPONSE dj obs w) = WiFi_COMPLETE
           \<and> w_cbLog (WiFiManager_PROCESSING_RESPONSE dj obs w) = w_cbLog w)
        \<and> (w_asyncCb w = Some cb \<and> dj (http_getString obs) = None \<longrightarrow>
           w_currentHttpState (WiFiManager_PROCESSING_RESPONSE dj obs w) = WiFi_ERROR
           \<and> w_cbLog (WiFiManager_PROCESSING_RESPONSE dj obs w) = w_cbLog w)
        \<and> (w_asyncCb w = Some cb \<and> dj (http_getString obs) = Some doc \<longrightarrow>
           w_currentHttpState (WiFiManager_PROCESSING_RESPONSE dj obs w)
             = (if cb doc then WiFi_COMPLETE else WiFi_ERROR)
           \<and> w_cbLog (WiFiManager_PROCESSING_RESPONSE dj obs w) = w_cbLog w @ [doc]))
   \<and> (200 \<le> gprsHttpStatusCode g \<and> gprsHttpStatusCode g < 300 \<longrightarrow>
        (g_asyncCb g = None \<longrightarrow>
           g_currentHttpState (GPRSManager_PROCESSING_RESPONSE dj g) = GPRS_COMPLETE
           \<and> g_cbLog (GPRSManager_PROCESSING_RESPONSE dj g) = g_cbLog g)
        \<and> (g_asyncCb g = Some cb \<and> dj (gprsResponseBuffer g) = None \<longrightarrow>
           g_currentHttpState (GPRSManager_PROCESSING_RESPONSE dj g) = GPRS_ERROR
           \<and> g_cbLog (GPRSManager_PROCESSING_RESPONSE dj g) = g_cbLog g)
        \<and> (g_asyncCb g = Some cb \<and> dj (gprsResponseBuffer g) = Some doc \<longrightarrow>
           g_currentHttpState (GPRSManager_PROCESSING_RESPONSE dj g)
             = (if cb doc then GPRS_COMPLETE else GPRS_ERROR)
           \<and> g_cbLog (GPRSManager_PROCESSING_RESPONSE dj g) = g_cbLog g @ [doc]))
   \<and> (\<not> (200 \<le> w_httpStatusCode w \<and> w_httpStatusCode w < 300) \<longrightarrow>
        w_currentHttpState (WiFiManager_PROCESSING_RESPONSE dj obs w) = WiFi_ERROR
        \<and> w_cbLog (WiFiManager_PROCESSING_RESPONSE dj obs w) = w_cbLog w)
   \<and> (\<not> (200 \<le> gprsHttpStatusCode g \<and> gprsHttpStatusCode g < 300) \<longrightarrow>
        g_currentHttpState (GPRSManager_PROCESSING_RESPONSE dj g) = GPRS_ERROR
        \<and> g_cbLog (GPRSManager_PROCESSING_RESPONSE dj g) =
             g_cbLog g @
               (case (g_asyncCb g, dj (gprsResponseBuffer g)) of
                  (Some cb, Some doc) \<Rightarrow> if gprsHttpStatusCode g \<noteq> 0 then [doc] else []
                | _ \<Rightarrow> []))
   \<and> w_currentHttpState (WiFiManager_ERROR now w) =
        (if WiFiManager_isRetryableError (w_httpStatusCode w) \<and> w_httpRetries w < MAX_HTTP_RETRIES
         then WiFi_RETRY_WAIT else WiFi_IDLE)
   \<and> g_currentHttpState (GPRSManager_ERROR now g) =
        (if GPRSManager_isRetryableError (gprsHttpStatusCode g) \<and> g_httpRetries g < MAX_HTTP_RETRIES
         then GPRS_RETRY_WAIT else GPRS_IDLE)
   \<and> (w_asyncOperationActive w \<and> now - w_asyncRequestStartTime w \<le> 30000 \<longrightarrow>
        (w_currentHttpState w = WiFi_PROCESSING_RESPONSE \<longrightarrow>
           WiFiManager_updateHttpOperations dj now obs w
             = WiFiManager_PROCESSING_RESPONSE dj obs w)
        \<and> (w_currentHttpState w = WiFi_ERROR \<longrightarrow>
           WiFiManager_updateHttpOperations dj now obs w = WiFiManager_ERROR now w))
   \<and> (g_asyncOperationActive g \<and> currentGprsState g = GPRS_STATE_OPERATIONAL \<longrightarrow>
        (g_currentHttpState g = GPRS_PROCESSING_RESPONSE
           \<and> now - g_asyncRequestStartTime g \<le> GPRS_HTTP_TOTAL_TIMEOUT_MS \<longrightarrow>
           GPRSManager_updateHttpOperations dj now cobs g
             = Some (GPRSManager_PROCESSING_RESPONSE dj g))
        \<and> (g_currentHttpState g = GPRS_ERROR \<longrightarrow>
           GPRSManager_updateHttpOperations dj now cobs g = Some (GPRSManager_ERROR now g))
        \<and> (g_currentHttpState g = GPRS_PROCESSING_RESPONSE
           \<and> now - g_asyncRequestStartTime g > GPRS_HTTP_TOTAL_TIMEOUT_MS \<longrightarrow>
           GPRSManager_updateHttpOperations dj now cobs g
             = Some (GPRSManager_ERROR now (g\<lparr>g_currentHttpState := GPRS_ERROR\<rparr>))))
   \<and> (g_asyncOperationActive g \<and> currentGprsState g \<noteq> GPRS_STATE_OPERATIONAL \<longrightarrow>
        (g_currentHttpState g = GPRS_PROCESSING_RESPONSE \<longrightarrow>
           GPRSManager_updateHttpOperations dj now cobs g
             = Some (g\<lparr>g_currentHttpState := GPRS_ERROR\<rparr>))
        \<and> (g_currentHttpState g = GPRS_ERROR \<longrightarrow>
           GPRSManager_updateHttpOperations dj now cobs g = Some g))
   \<and> (\<not> g_asyncOperationActive g \<longrightarrow>
        GPRSManager_updateHttpOperations dj now cobs g = Some g)
   \<and> (\<not> w_asyncOperationActive w \<longrightarrow>
        WiFiManager_updateHttpOperations dj now obs w = w)
   \<and> (w_asyncOperationActive w \<and> now - w_asyncRequestStartTime w > 30000
        \<and> w_currentHttpState w = WiFi_PROCESSING_RESPONSE \<longrightarrow>
        WiFiManager_updateHttpOperations dj now obs w
          = WiFiManager_ERROR now (w\<lparr>w_currentHttpState := WiFi_ERROR\<rparr>))"
proof -
  have w2: "200 \<le> w_httpStatusCode w \<and> w_httpStatusCode w < 300 \<longrightarrow>
        (w_asyncCb w = None \<longrightarrow>
           w_currentHttpState (WiFiManager_PROCESSING_RESPONSE dj obs w) = WiFi_COMPLETE
           \<and> w_cbLog (WiFiManager_PROCESSING_RESPONSE dj obs w) = w_cbLog w)
        \<and> (w_asyncCb w = Some cb \<and> dj (http_getString obs) = None \<longrightarrow>
           w_currentHttpState (WiFiManager_PROCESSING_RESPONSE dj obs w) = WiFi_ERROR
           \<and> w_cbLog (WiFiManager_PROCESSING_RESPONSE dj obs w) = w_cbLog w)
        \<and> (w_asyncCb w = Some cb \<and> dj (http_getString obs) = Some doc \<longrightarrow>
           w_currentHttpState (WiFiManager_PROCESSING_RESPONSE dj obs w)
             = (if cb doc then WiFi_COMPLETE else WiFi_ERROR)
           \<and> w_cbLog (WiFiManager_PROCESSING_RESPONSE dj obs w) = w_cbLog w @ [doc])"
    by (simp add: WiFi_processing_2xx)
  have g2: "200 \<le> gprsHttpStatusCode g \<and> gprsHttpStatusCode g < 300 \<longrightarrow>
        (g_asyncCb g = None \<longrightarrow>
           g_currentHttpState (GPRSManager_PROCESSING_RESPONSE dj g) = GPRS_COMPLETE
           \<and> g_cbLog (GPRSManager_PROCESSING_RESPONSE dj g) = g_cbLog g)
        \<and> (g_asyncCb g = Some cb \<and> dj (gprsResponseBuffer g) = None \<longrightarrow>
           g_currentHttpState (GPRSManager_PROCESSING_RESPONSE dj g) = GPRS_ERROR
           \<and> g_cbLog (GPRSManager_PROCESSING_RESPONSE dj g) = g_cbLog g)
        \<and> (g_asyncCb g = Some cb \<and> dj (gprsResponseBuffer g) = Some doc \<longrightarrow>
           g_currentHttpState (GPRSManager_PROCESSING_RESPONSE dj g)
             = (if cb doc then GPRS_COMPLETE else GPRS_ERROR)
           \<and> g_cbLog (GPRSManager_PROCESSING_RESPONSE dj g) = g_cbLog g @ [doc])"
    by (simp add: GPRS_processing_2xx)
  have wo: "\<not> (200 \<le> w_httpStatusCode w \<and> w_httpStatusCode w < 300) \<longrightarrow>
        w_currentHttpState (WiFiManager_PROCESSING_RESPONSE dj obs w) = WiFi_ERROR
        \<and> w_cbLog (WiFiManager_PROCESSING_RESPONSE dj obs w) = w_cbLog w"
    using WiFi_processing_other [of w dj obs] by simp
  have go: "\<not> (200 \<le> gprsHttpStatusCode g \<and> gprsHttpStatusCode g < 300) \<longrightarrow>
        g_currentHttpState (GPRSManager_PROCESSING_RESPONSE dj g) = GPRS_ERROR
        \<and> g_cbLog (GPRSManager_PROCESSING_RESPONSE dj g) =
             g_cbLog g @
               (case (g_asyncCb g, dj (gprsResponseBuffer g)) of
                  (Some cb, Some doc) \<Rightarrow> if gprsHttpStatusCode g \<noteq> 0 then [doc] else []
                | _ \<Rightarrow> [])"
    using GPRS_processing_other(1,3) [of g dj] by (intro impI conjI)
  have we: "w_currentHttpState (WiFiManager_ERROR now w) =
        (if WiFiManager_isRetryableError (w_httpStatusCode w) \<and> w_httpRetries w < MAX_HTTP_RETRIES
         then WiFi_RETRY_WAIT else WiFi_IDLE)"
    by (simp add: WiFiManager_ERROR_def)
  have ge: "g_currentHttpState (GPRSManager_ERROR now g) =
        (if GPRSManager_isRetryableError (gprsHttpStatusCode g) \<and> g_httpRetries g < MAX_HTTP_RETRIES
         then GPRS_RETRY_WAIT else GPRS_IDLE)"
    by (simp add: GPRSManager_ERROR_def)
  have wd: "w_asyncOperationActive w \<and> now - w_asyncRequestStartTime w \<le> 30000 \<longrightarrow>
        (w_currentHttpState w = WiFi_PROCESSING_RESPONSE \<longrightarrow>
           WiFiManager_updateHttpOperations dj now obs w
             = WiFiManager_PROCESSING_RESPONSE dj obs w)
        \<and> (w_currentHttpState w = WiFi_ERROR \<longrightarrow>
           WiFiManager_updateHttpOperations dj now obs w = WiFiManager_ERROR now w)"
    by (auto simp: WiFiManager_updateHttpOperations_def not_less [symmetric])
  have gd: "g_asyncOperationActive g \<and> currentGprsState g = GPRS_STATE_OPERATIONAL \<longrightarrow>
        (g_currentHttpState g = GPRS_PROCESSING_RESPONSE
           \<and> now - g_asyncRequestStartTime g \<le> GPRS_HTTP_TOTAL_TIMEOUT_MS \<longrightarrow>
           GPRSManager_updateHttpOperations dj now cobs g
             = Some (GPRSManager_PROCESSING_RESPONSE dj g))
        \<and> (g_currentHttpState g = GPRS_ERROR \<longrightarrow>
           GPRSManager_updateHttpOperations dj now cobs g = Some (GPRSManager_ERROR now g))
        \<and> (g_currentHttpState g = GPRS_PROCESSING_RESPONSE
           \<and> now - g_asyncRequestStartTime g > GPRS_HTTP_TOTAL_TIMEOUT_MS \<longrightarrow>
           GPRSManager_updateHttpOperations dj now cobs g
             = Some (GPRSManager_ERROR now (g\<lparr>g_currentHttpState := GPRS_ERROR\<rparr>)))"
    using GPRS_poll_serves [where g = g and now = now and dj = dj and cobs = cobs] by (intro impI conjI) (elim conjE, simp)+
  have gp: "g_asyncOperationActive g \<and> currentGprsState g \<noteq> GPRS_STATE_OPERATIONAL \<longrightarrow>
        (g_currentHttpState g = GPRS_PROCESSING_RESPONSE \<longrightarrow>
           GPRSManager_updateHttpOperations dj now cobs g
             = Some (g\<lparr>g_currentHttpState := GPRS_ERROR\<rparr>))
        \<and> (g_currentHttpState g = GPRS_ERROR \<longrightarrow>
           GPRSManager_updateHttpOperations dj now cobs g = Some g)"
    using GPRS_poll_paused [where g = g and now = now and dj = dj and cobs = cobs] by (intro impI conjI) (elim conjE, simp)+
  have gi: "\<not> g_asyncOperationActive g \<longrightarrow>
        GPRSManager_updateHttpOperations dj now cobs g = Some g"
    by (simp add: GPRSManager_updateHttpOperations_def)
  have wi: "\<not> w_asyncOperationActive w \<longrightarrow>
        WiFiManager_updateHttpOperations dj now obs w = w"
    by (simp add: WiFiManager_updateHttpOperations_def)
  have wt: "w_asyncOperationActive w \<and> now - w_asyncRequestStartTime w > 30000
        \<and> w_currentHttpState w = WiFi_PROCESSING_RESPONSE \<longrightarrow>
        WiFiManager_updateHttpOperations dj now obs w
          = WiFiManager_ERROR now (w\<lparr>w_currentHttpState := WiFi_ERROR\<rparr>)"
    by (simp add: WiFiManager_updateHttpOperations_def)
  show ?thesis by (intro conjI processing_keeps_status w2 g2 wo go we ge wd gd gp gi wi wt)
qed

theorem processing_response_outcomes_witness:
  "w_cbLog (WiFiManager_PROCESSING_RESPONSE deserialize_nonempty (body_obs ''{}'')
      (wifi_processing 404 (Some accept_any))) = []
   \<and> w_currentHttpState (WiFiManager_PROCESSING_RESPONSE deserialize_nonempty (body_obs ''{}'')
      (wifi_processing 404 (Some accept_any))) = WiFi_ERROR
   \<and> g_cbLog (GPRSManager_PROCESSING_RESPONSE deserialize_nonempty
      (gprs_processing 200 (Some accept_any) ''{}'')) = [2]
   \<and> g_currentHttpState (GPRSManager_PROCESSING_RESPONSE deserialize_nonempty
      (gprs_processing 200 (Some accept_any) ''{}'')) = GPRS_COMPLETE
   \<and> GPRSManager_updateHttpOperations deserialize_nonempty 1000 client_quiet
        (gprs_processing 200 (Some accept_any) ''{}'')
      = Some (GPRSManager_PROCESSING_RESPONSE deserialize_nonempty
                (gprs_processing 200 (Some accept_any) ''{}''))
   \<and> WiFiManager_updateHttpOperations deserialize_nonempty 1000 (body_obs ''{}'')
        (wifi_processing 404 (Some accept_any))
      = WiFiManager_PROCESSING_RESPONSE deserialize_nonempty (body_obs ''{}'')
          (wifi_processing 404 (Some accept_any))
   \<and> GPRSManager_updateHttpOperations deserialize_nonempty 1000 client_quiet gprs_paused
      = Some (gprs_paused\<lparr>g_currentHttpState := GPRS_ERROR\<rparr>)"
proof -
  let ?w = "wifi_processing 404 (Some accept_any)"
  let ?g = "gprs_processing 200 (Some accept_any) ''{}''"
  have hw: "\<not> (200 \<le> w_httpStatusCode ?w \<and> w_httpStatusCode ?w < 300)" "w_cbLog ?w = []"
    "w_asyncOperationActive ?w \<and> 1000 - w_asyncRequestStartTime ?w \<le> 30000"
    "w_currentHttpState ?w = WiFi_PROCESSING_RESPONSE"
    by (simp_all add: wifi_processing_def WiFiManager_init_def)
  have hg: "200 \<le> gprsHttpStatusCode ?g \<and> gprsHttpStatusCode ?g < 300"
    "g_asyncCb ?g = Some accept_any \<and> deserialize_nonempty (gprsResponseBuffer ?g) = Some 2"
    "g_cbLog ?g = []" "accept_any 2"
    "g_asyncOperationActive ?g \<and> currentGprsState ?g = GPRS_STATE_OPERATIONAL"
    "g_currentHttpState ?g = GPRS_PROCESSING_RESPONSE
     \<and> 1000 - g_asyncRequestStartTime ?g \<le> GPRS_HTTP_TOTAL_TIMEOUT_MS"
    by (simp_all add: gprs_processing_def GPRSManager_init_def deserialize_nonempty_def
        accept_any_def GPRS_HTTP_TOTAL_TIMEOUT_MS_def)
  have hp: "g_asyncOperationActive gprs_paused
     \<and> currentGprsState gprs_paused \<noteq> GPRS_STATE_OPERATIONAL"
    "g_currentHttpState gprs_paused = GPRS_PROCESSING_RESPONSE"
    by (simp_all add: gprs_paused_def gprs_processing_def GPRSManager_init_def)
  note a = processing_response_outcomes
         [where dj = deserialize_nonempty and obs = "body_obs ''{}''" and w = ?w and g = ?g
            and cb = accept_any and doc = 2 and now = 1000 and cobs = client_quiet]
  note b = processing_response_outcomes
         [where dj = deserialize_nonempty and obs = "body_obs ''{}''" and w = ?w
            and g = gprs_paused and cb = accept_any and doc = 2 and now = 1000
            and cobs = client_quiet]
  have "w_cbLog (WiFiManager_PROCESSING_RESPONSE deserialize_nonempty (body_obs ''{}'') ?w) = []
     \<and> w_currentHttpState (WiFiManager_PROCESSING_RESPONSE deserialize_nonempty (body_obs ''{}'') ?w)
        = WiFi_ERROR
     \<and> g_cbLog (GPRSManager_PROCESSING_RESPONSE deserialize_nonempty ?g) = [2]
     \<and> g_currentHttpState (GPRSManager_PROCESSING_RESPONSE deserialize_nonempty ?g) = GPRS_COMPLETE
     \<and> GPRSManager_updateHttpOperations deserialize_nonempty 1000 client_quiet ?g
        = Some (GPRSManager_PROCESSING_RESPONSE deserialize_nonempty ?g)
     \<and> WiFiManager_updateHttpOperations deserialize_nonempty 1000 (body_obs ''{}'') ?w
        = WiFiManager_PROCESSING_RESPONSE deserialize_nonempty (body_obs ''{}'') ?w"
    using a hw hg by simp
  moreover have "GPRSManager_updateHttpOperations deserialize_nonempty 1000 client_quiet gprs_paused
      = Some (gprs_paused\<lparr>g_currentHttpState := GPRS_ERROR\<rparr>)"
    using b hp by simp
  ultimately show ?thesis by blast
qed


subsection \<open>C8: one request in flight\<close>

lemma WiFi_start_accepts:
  "fst (WiFiManager_startAsyncHttpRequest now url meth apiType payload cb needsAuth w) \<Longrightarrow>
   \<not> w_asyncOperationActive w
   \<and> w_asyncOperationActive
        (snd (WiFiManager_startAsyncHttpRequest now url meth apiType payload cb needsAuth w))
   \<and> w_currentHttpState
        (snd (WiFiManager_startAsyncHttpRequest now url meth apiType payload cb needsAuth w))
       = WiFi_BEGIN_REQUEST"
  by (simp add: WiFiManager_startAsyncHttpRequest_def split: if_splits)

lemma GPRS_start_accepts:
  "fst (GPRSManager_startAsyncHttpRequest now url meth apiType payload cb needsAuth g) \<longrightarrow>
   \<not> g_asyncOperationActive g
   \<and> g_asyncOperationActive
        (snd (GPRSManager_startAsyncHttpRequest now url meth apiType payload cb needsAuth g))
   \<and> g_currentHttpState
        (snd (GPRSManager_startAsyncHttpRequest now url meth apiType payload cb needsAuth g))
       = GPRS_CLIENT_CONNECT"
  by (simp add: GPRSManager_startAsyncHttpRequest_def Let_def split: option.split)

text \<open>
  Claim C8. For each transport, whenever the async-operation-active flag is set,
  \<open>startAsyncHttpRequest\<close> returns false and leaves the whole manager state unchanged
  (URL, method, payload, callback, retry counter and HTTP FSM state included); and when
  it returns true the flag was clear before the call and is set after it, with the HTTP
  FSM in its first request state. So a new request is accepted only when none is in
  flight.
\<close>

theorem one_request_in_flight:
  "(w_asyncOperationActive w \<longrightarrow>
      WiFiManager_startAsyncHttpRequest now url meth apiType payload cb needsAuth w = (False, w))
   \<and> (g_asyncOperationActive g \<longrightarrow>
      GPRSManager_startAsyncHttpRequest now url meth apiType payload cb needsAuth g = (False, g))
   \<and> (fst (WiFiManager_startAsyncHttpRequest now url meth apiType payload cb needsAuth w) \<longrightarrow>
      \<not> w_asyncOperationActive w
      \<and> w_asyncOperationActive
           (snd (WiFiManager_startAsyncHttpRequest now url meth apiType payload cb needsAuth w))
      \<and> w_currentHttpState
           (snd (WiFiManager_startAsyncHttpRequest now url meth apiType payload cb needsAuth w))
          = WiFi_BEGIN_REQUEST)
   \<and> (fst (GPRSManager_startAsyncHttpRequest now url meth apiType payload cb needsAuth g) \<longrightarrow>
      \<not> g_asyncOperationActive g
      \<and> g_asyncOperationActive
           (snd (GPRSManager_startAsyncHttpRequest now url meth apiType payload cb needsAuth g))
      \<and> g_currentHttpState
           (snd (GPRSManager_startAsyncHttpRequest now url meth apiType payload cb needsAuth g))
          = GPRS_CLIENT_CONNECT)"
proof -
  have a: "w_asyncOperationActive w \<longrightarrow>
      WiFiManager_startAsyncHttpRequest now url meth apiType payload cb needsAuth w = (False, w)"
    by (simp add: WiFiManager_startAsyncHttpRequest_def)
  have b: "g_asyncOperationActive g \<longrightarrow>
      GPRSManager_startAsyncHttpRequest now url meth apiType payload cb needsAuth g = (False, g)"
    by (simp add: GPRSManager_startAsyncHttpRequest_def)
  show ?thesis
    using WiFi_start_accepts [of now url meth apiType payload cb needsAuth w]
      GPRS_start_accepts [of now url meth apiType payload cb needsAuth g]
    by (intro conjI a b) (simp_all del: split_paired_All)
qed

lemma started_fields:
  "w_asyncOperationActive wifi_started" "w_asyncUrl wifi_started = ''http://api.example.com/th''"
  "g_asyncOperationActive gprs_started" "gprsHost gprs_started = ''api.example.com''"
  "gprsPort gprs_started = 8080" "gprsPath gprs_started = ''/th''"
  by (simp_all add: wifi_started_def gprs_started_def wifi_idle_def gprs_idle_def
      WiFiManager_startAsyncHttpRequest_def GPRSManager_startAsyncHttpRequest_def
      WiFiManager_init_def GPRSManager_init_def WiFiManager_isConnected_def
      GPRSManager_isConnected_def Let_def GPRS_MAX_HOST_LEN_def GPRS_MAX_PATH_LEN_def
      API_URL_MAX_LEN_def atoi_def strtol_def isspace_def digit_value_def LONG_MAX_def)

theorem one_request_in_flight_witness:
  "WiFiManager_startAsyncHttpRequest 200 ''http://api.example.com/nd'' ''GET'' ''ND_ASYNC_LP''
      None None True wifi_started = (False, wifi_started)
   \<and> GPRSManager_startAsyncHttpRequest 200 ''http://api.example.com/nd'' ''GET'' ''ND_ASYNC_LP''
      None None True gprs_started = (False, gprs_started)"
  using one_request_in_flight [of wifi_started 200 "''http://api.example.com/nd''" "''GET''"
      "''ND_ASYNC_LP''" None None True gprs_started] started_fields(1,3)
  by simp


subsection \<open>C6: reconnect and switch-back backoff\<close>

lemma backoff_step:
  fixes d c :: ulong
  assumes "unat d \<le> unat c" and "unat c < 2 ^ 31"
  shows "unat (if d * 2 > c then c else d * 2) = min (2 * unat d) (unat c)"
proof -
  have "unat d * 2 < 2 ^ 32" using assms by simp
  then have u: "unat (d * 2) = 2 * unat d"
    by (simp add: unat_word_ariths)
  show ?thesis
    by (simp add: word_less_nat_alt u min_def)
qed

lemma reconnect_block_delays:
  "reconnect_delay (handleNetworkConnection_reconnect r s) =
     (if reconnect_due r s
      then (if reconnect_ok r s then INITIAL_RETRY_DELAY_MS
            else if reconnect_delay s * 2 > MAX_RETRY_DELAY_MS then MAX_RETRY_DELAY_MS
            else reconnect_delay s * 2)
      else reconnect_delay s)"
  "switch_back_delay (handleNetworkConnection_reconnect r s) = switch_back_delay s"
  by (auto simp: handleNetworkConnection_reconnect_def reconnect_ok_def reconnect_due_def Let_def
      split: option.splits prod.splits)

lemma switch_back_block_delays:
  "switch_back_delay (handleNetworkConnection_switch_back r s) =
     (if switch_back_due r s
      then (if switch_ok r s then WIFI_RETRY_WHEN_GPRS_MS
            else if switch_back_delay s * 2 > MAX_WIFI_RETRY_WHEN_GPRS_MS
            then MAX_WIFI_RETRY_WHEN_GPRS_MS
            else switch_back_delay s * 2)
      else switch_back_delay s)"
  "reconnect_delay (handleNetworkConnection_switch_back r s) = reconnect_delay s"
  by (auto simp: handleNetworkConnection_switch_back_def switch_ok_def switch_back_due_def Let_def
      split: option.splits prod.splits)


lemma round_delays:
  "reconnect_delay (handleNetworkConnection r s) =
     (if reconnect_due r s
      then (if reconnect_ok r s then INITIAL_RETRY_DELAY_MS
            else if reconnect_delay s * 2 > MAX_RETRY_DELAY_MS then MAX_RETRY_DELAY_MS
            else reconnect_delay s * 2)
      else reconnect_delay s)"
  "switch_back_delay (handleNetworkConnection r s) =
     (if switch_back_due r (handleNetworkConnection_reconnect r s)
      then (if switch_ok r (handleNetworkConnection_reconnect r s) then WIFI_RETRY_WHEN_GPRS_MS
            else if switch_back_delay s * 2 > MAX_WIFI_RETRY_WHEN_GPRS_MS
            then MAX_WIFI_RETRY_WHEN_GPRS_MS
            else switch_back_delay s * 2)
      else switch_back_delay s)"
  by (simp_all add: handleNetworkConnection_def switch_back_block_delays reconnect_block_delays)

lemma reconnect_failure_doubles:
  assumes "reconnect_fails r s" and "unat (reconnect_delay s) \<le> unat MAX_RETRY_DELAY_MS"
  shows "unat (reconnect_delay (handleNetworkConnection r s))
           = min (2 * unat (reconnect_delay s)) (unat MAX_RETRY_DELAY_MS)"
proof -
  have "unat MAX_RETRY_DELAY_MS < 2 ^ 31" by (simp add: MAX_RETRY_DELAY_MS_def)
  from backoff_step [OF assms(2) this] assms(1) show ?thesis
    by (simp add: round_delays reconnect_fails_def)
qed

lemma switch_back_failure_doubles:
  assumes "switch_back_fails r s"
    and "unat (switch_back_delay s) \<le> unat MAX_WIFI_RETRY_WHEN_GPRS_MS"
  shows "unat (switch_back_delay (handleNetworkConnection r s))
           = min (2 * unat (switch_back_delay s)) (unat MAX_WIFI_RETRY_WHEN_GPRS_MS)"
proof -
  have "unat MAX_WIFI_RETRY_WHEN_GPRS_MS < 2 ^ 31" by (simp add: MAX_WIFI_RETRY_WHEN_GPRS_MS_def)
  from backoff_step [OF assms(2) this] assms(1) show ?thesis
    by (simp add: round_delays switch_back_fails_def)
qed

lemma min_double_pow:
  fixes a m :: nat
  shows "min (min (2 * a) m * 2 ^ n) m = min (a * 2 ^ Suc n) m"
proof (cases "2 * a \<le> m")
  case True
  then have "min (2 * a) m = 2 * a" by simp
  then show ?thesis by (simp add: mult.assoc mult.commute mult.left_commute)
next
  case False
  then have m: "min (2 * a) m = m" by simp
  have one: "(1::nat) \<le> 2 ^ n" by simp
  have "m * 1 \<le> m * 2 ^ n" using one by (rule mult_le_mono2)
  then have l: "min (m * 2 ^ n) m = m" by simp
  have e: "a * 2 ^ Suc n = (2 * a) * 2 ^ n" by simp
  have "(2 * a) * 1 \<le> (2 * a) * 2 ^ n" using one by (rule mult_le_mono2)
  then have "2 * a \<le> a * 2 ^ Suc n" unfolding e by simp
  then have "m \<le> a * 2 ^ Suc n" using False by linarith
  then have r: "min (a * 2 ^ Suc n) m = m" by simp
  show ?thesis unfolding m l r ..
qed

lemma reconnect_failures_closed_form:
  "consecutive_reconnect_failures rs s \<Longrightarrow>
   unat (reconnect_delay s) \<le> unat MAX_RETRY_DELAY_MS \<Longrightarrow>
   unat (reconnect_delay (handleNetworkConnection_rounds rs s))
     = min (unat (reconnect_delay s) * 2 ^ length rs) (unat MAX_RETRY_DELAY_MS)"
proof (induction rs arbitrary: s)
  case Nil
  then show ?case by simp
next
  case (Cons r rs)
  let ?s = "handleNetworkConnection r s"
  from Cons.prems have f: "reconnect_fails r s" and rest: "consecutive_reconnect_failures rs ?s"
    by simp_all
  note d = reconnect_failure_doubles [OF f Cons.prems(2)]
  then have le: "unat (reconnect_delay ?s) \<le> unat MAX_RETRY_DELAY_MS" by simp
  from Cons.IH [OF rest le] show ?case
    unfolding d by (simp add: min_double_pow del: power_Suc)
qed

lemma switch_back_failures_closed_form:
  "consecutive_switch_back_failures rs s \<Longrightarrow>
   unat (switch_back_delay s) \<le> unat MAX_WIFI_RETRY_WHEN_GPRS_MS \<Longrightarrow>
   unat (switch_back_delay (handleNetworkConnection_rounds rs s))
     = min (unat (switch_back_delay s) * 2 ^ length rs) (unat MAX_WIFI_RETRY_WHEN_GPRS_MS)"
proof (induction rs arbitrary: s)
  case Nil
  then show ?case by simp
next
  case (Cons r rs)
  let ?s = "handleNetworkConnection r s"
  from Cons.prems have f: "switch_back_fails r s" and rest: "consecutive_switch_back_failures rs ?s"
    by simp_all
  note d = switch_back_failure_doubles [OF f Cons.prems(2)]
  then have le: "unat (switch_back_delay ?s) \<le> unat MAX_WIFI_RETRY_WHEN_GPRS_MS" by simp
  from Cons.IH [OF rest le] show ?case
    unfolding d by (simp add: min_double_pow del: power_Suc)
qed

lemma switch_back_reset_only_on_success:
  assumes "\<not> switch_back_succeeds r s"
    and "unat WIFI_RETRY_WHEN_GPRS_MS \<le> unat (switch_back_delay s)"
    and "unat (switch_back_delay s) \<le> unat MAX_WIFI_RETRY_WHEN_GPRS_MS"
    and "switch_back_delay (handleNetworkConnection r s) = WIFI_RETRY_WHEN_GPRS_MS"
  shows "switch_back_delay s = WIFI_RETRY_WHEN_GPRS_MS \<and> \<not> switch_back_fails r s"
proof (cases "switch_back_fails r s")
  case True
  from switch_back_failure_doubles [OF True assms(3)] assms(4)
  have "unat WIFI_RETRY_WHEN_GPRS_MS
          = min (2 * unat (switch_back_delay s)) (unat MAX_WIFI_RETRY_WHEN_GPRS_MS)" by simp
  with assms(2) have False
    by (simp add: WIFI_RETRY_WHEN_GPRS_MS_def MAX_WIFI_RETRY_WHEN_GPRS_MS_def min_def
        split: if_splits)
  then show ?thesis ..
next
  case False
  with assms(1) have "\<not> switch_back_due r (handleNetworkConnection_reconnect r s)"
    by (auto simp: switch_back_fails_def switch_back_succeeds_def)
  with assms(4) False show ?thesis by (simp add: round_delays)
qed


lemma reconnect_delay_bounds:
  assumes "unat INITIAL_RETRY_DELAY_MS \<le> unat (reconnect_delay s)"
    and "unat (reconnect_delay s) \<le> unat MAX_RETRY_DELAY_MS"
  shows "unat INITIAL_RETRY_DELAY_MS \<le> unat (reconnect_delay (handleNetworkConnection r s))
       \<and> unat (reconnect_delay (handleNetworkConnection r s)) \<le> unat MAX_RETRY_DELAY_MS"
proof -
  have m: "unat MAX_RETRY_DELAY_MS < 2 ^ 31" by (simp add: MAX_RETRY_DELAY_MS_def)
  have fc: "unat INITIAL_RETRY_DELAY_MS \<le> unat MAX_RETRY_DELAY_MS"
    by (simp add: INITIAL_RETRY_DELAY_MS_def MAX_RETRY_DELAY_MS_def)
  from backoff_step [OF assms(2) m] assms fc show ?thesis
    by (simp add: round_delays)
qed

lemma switch_back_delay_bounds:
  assumes "unat WIFI_RETRY_WHEN_GPRS_MS \<le> unat (switch_back_delay s)"
    and "unat (switch_back_delay s) \<le> unat MAX_WIFI_RETRY_WHEN_GPRS_MS"
  shows "unat WIFI_RETRY_WHEN_GPRS_MS \<le> unat (switch_back_delay (handleNetworkConnection r s))
       \<and> unat (switch_back_delay (handleNetworkConnection r s))
           \<le> unat MAX_WIFI_RETRY_WHEN_GPRS_MS"
proof -
  have m: "unat MAX_WIFI_RETRY_WHEN_GPRS_MS < 2 ^ 31"
    by (simp add: MAX_WIFI_RETRY_WHEN_GPRS_MS_def)
  have fc: "unat WIFI_RETRY_WHEN_GPRS_MS \<le> unat MAX_WIFI_RETRY_WHEN_GPRS_MS"
    by (simp add: WIFI_RETRY_WHEN_GPRS_MS_def MAX_WIFI_RETRY_WHEN_GPRS_MS_def)
  from backoff_step [OF assms(2) m] assms fc show ?thesis
    by (simp add: round_delays)
qed

text \<open>
  Claim C6. For both backoff fields of the shared state
  (\<open>currentConnectionRetryDelayMs\<close> and \<open>currentWiFiSwitchBackoffDelayMs\<close>): each
  failed attempt doubles the delay, capped at its ceiling; a successful attempt resets it
  to its floor; a call that makes no attempt leaves it alone; \<open>N\<close> consecutive failures
  starting from the floor give \<open>min (floor * 2 ^ N) ceiling\<close>; and the switch-back delay,
  once within its floor and ceiling, comes back to its floor only through a successful
  switch-back. Delays are read as unsigned 32-bit values; the bounds on the current
  delay hold initially and are kept by every update.
\<close>

theorem backoff_doubles_and_resets:
  "(reconnect_fails r s \<and> unat (reconnect_delay s) \<le> unat MAX_RETRY_DELAY_MS \<longrightarrow>
      unat (reconnect_delay (handleNetworkConnection r s))
        = min (2 * unat (reconnect_delay s)) (unat MAX_RETRY_DELAY_MS))
   \<and> (reconnect_succeeds r s \<longrightarrow>
      reconnect_delay (handleNetworkConnection r s) = INITIAL_RETRY_DELAY_MS)
   \<and> (\<not> reconnect_due r s \<longrightarrow>
      reconnect_delay (handleNetworkConnection r s) = reconnect_delay s)
   \<and> (switch_back_fails r s
       \<and> unat (switch_back_delay s) \<le> unat MAX_WIFI_RETRY_WHEN_GPRS_MS \<longrightarrow>
      unat (switch_back_delay (handleNetworkConnection r s))
        = min (2 * unat (switch_back_delay s)) (unat MAX_WIFI_RETRY_WHEN_GPRS_MS))
   \<and> (switch_back_succeeds r s \<longrightarrow>
      switch_back_delay (handleNetworkConnection r s) = WIFI_RETRY_WHEN_GPRS_MS)
   \<and> (\<not> switch_back_succeeds r s
       \<and> unat WIFI_RETRY_WHEN_GPRS_MS \<le> unat (switch_back_delay s)
       \<and> unat (switch_back_delay s) \<le> unat MAX_WIFI_RETRY_WHEN_GPRS_MS
       \<and> switch_back_delay (handleNetworkConnection r s) = WIFI_RETRY_WHEN_GPRS_MS \<longrightarrow>
      switch_back_delay s = WIFI_RETRY_WHEN_GPRS_MS \<and> \<not> switch_back_fails r s)
   \<and> (consecutive_reconnect_failures rs s
       \<and> reconnect_delay s = INITIAL_RETRY_DELAY_MS \<longrightarrow>
      unat (reconnect_delay (handleNetworkConnection_rounds rs s))
        = min (unat INITIAL_RETRY_DELAY_MS * 2 ^ length rs) (unat MAX_RETRY_DELAY_MS))
   \<and> (consecutive_switch_back_failures rs s
       \<and> switch_back_delay s = WIFI_RETRY_WHEN_GPRS_MS \<longrightarrow>
      unat (switch_back_delay (handleNetworkConnection_rounds rs s))
        = min (unat WIFI_RETRY_WHEN_GPRS_MS * 2 ^ length rs) (unat MAX_WIFI_RETRY_WHEN_GPRS_MS))
   \<and> (\<not> switch_back_due r (handleNetworkConnection_reconnect r s) \<longrightarrow>
      switch_back_delay (handleNetworkConnection r s) = switch_back_delay s)
   \<and> (unat INITIAL_RETRY_DELAY_MS \<le> unat (reconnect_delay s)
       \<and> unat (reconnect_delay s) \<le> unat MAX_RETRY_DELAY_MS \<longrightarrow>
      unat INITIAL_RETRY_DELAY_MS \<le> unat (reconnect_delay (handleNetworkConnection r s))
      \<and> unat (reconnect_delay (handleNetworkConnection r s)) \<le> unat MAX_RETRY_DELAY_MS)
   \<and> (unat WIFI_RETRY_WHEN_GPRS_MS \<le> unat (switch_back_delay s)
       \<and> unat (switch_back_delay s) \<le> unat MAX_WIFI_RETRY_WHEN_GPRS_MS \<longrightarrow>
      unat WIFI_RETRY_WHEN_GPRS_MS \<le> unat (switch_back_delay (handleNetworkConnection r s))
      \<and> unat (switch_back_delay (handleNetworkConnection r s))
           \<le> unat MAX_WIFI_RETRY_WHEN_GPRS_MS)"
proof -
  have c1: "reconnect_fails r s \<and> unat (reconnect_delay s) \<le> unat MAX_RETRY_DELAY_MS \<longrightarrow>
      unat (reconnect_delay (handleNetworkConnection r s))
        = min (2 * unat (reconnect_delay s)) (unat MAX_RETRY_DELAY_MS)"
    using reconnect_failure_doubles [of r s] by (intro impI) (elim conjE)
  have c2: "reconnect_succeeds r s \<longrightarrow>
      reconnect_delay (handleNetworkConnection r s) = INITIAL_RETRY_DELAY_MS"
    by (simp add: round_delays reconnect_succeeds_def)
  have c3: "\<not> reconnect_due r s \<longrightarrow>
      reconnect_delay (handleNetworkConnection r s) = reconnect_delay s"
    by (simp add: round_delays)
  have c4: "switch_back_fails r s
       \<and> unat (switch_back_delay s) \<le> unat MAX_WIFI_RETRY_WHEN_GPRS_MS \<longrightarrow>
      unat (switch_back_delay (handleNetworkConnection r s))
        = min (2 * unat (switch_back_delay s)) (unat MAX_WIFI_RETRY_WHEN_GPRS_MS)"
    using switch_back_failure_doubles [of r s] by (intro impI) (elim conjE)
  have c5: "switch_back_succeeds r s \<longrightarrow>
      switch_back_delay (handleNetworkConnection r s) = WIFI_RETRY_WHEN_GPRS_MS"
    by (simp add: round_delays switch_back_succeeds_def)
  have c6: "\<not> switch_back_succeeds r s
       \<and> unat WIFI_RETRY_WHEN_GPRS_MS \<le> unat (switch_back_delay s)
       \<and> unat (switch_back_delay s) \<le> unat MAX_WIFI_RETRY_WHEN_GPRS_MS
       \<and> switch_back_delay (handleNetworkConnection r s) = WIFI_RETRY_WHEN_GPRS_MS \<longrightarrow>
      switch_back_delay s = WIFI_RETRY_WHEN_GPRS_MS \<and> \<not> switch_back_fails r s"
    using switch_back_reset_only_on_success [of r s] by (intro impI) (elim conjE)
  have c7: "consecutive_reconnect_failures rs s
       \<and> reconnect_delay s = INITIAL_RETRY_DELAY_MS \<longrightarrow>
      unat (reconnect_delay (handleNetworkConnection_rounds rs s))
        = min (unat INITIAL_RETRY_DELAY_MS * 2 ^ length rs) (unat MAX_RETRY_DELAY_MS)"
  proof (intro impI, elim conjE)
    assume a: "consecutive_reconnect_failures rs s"
      and b: "reconnect_delay s = INITIAL_RETRY_DELAY_MS"
    have "unat (reconnect_delay s) \<le> unat MAX_RETRY_DELAY_MS"
      by (simp add: b INITIAL_RETRY_DELAY_MS_def MAX_RETRY_DELAY_MS_def)
    from reconnect_failures_closed_form [OF a this] b
    show "unat (reconnect_delay (handleNetworkConnection_rounds rs s))
        = min (unat INITIAL_RETRY_DELAY_MS * 2 ^ length rs) (unat MAX_RETRY_DELAY_MS)" by simp
  qed
  have c8: "consecutive_switch_back_failures rs s
       \<and> switch_back_delay s = WIFI_RETRY_WHEN_GPRS_MS \<longrightarrow>
      unat (switch_back_delay (handleNetworkConnection_rounds rs s))
        = min (unat WIFI_RETRY_WHEN_GPRS_MS * 2 ^ length rs) (unat MAX_WIFI_RETRY_WHEN_GPRS_MS)"
  proof (intro impI, elim conjE)
    assume a: "consecutive_switch_back_failures rs s"
      and b: "switch_back_delay s = WIFI_RETRY_WHEN_GPRS_MS"
    have "unat (switch_back_delay s) \<le> unat MAX_WIFI_RETRY_WHEN_GPRS_MS"
      by (simp add: b WIFI_RETRY_WHEN_GPRS_MS_def MAX_WIFI_RETRY_WHEN_GPRS_MS_def)
    from switch_back_failures_closed_form [OF a this] b
    show "unat (switch_back_delay (handleNetworkConnection_rounds rs s))
        = min (unat WIFI_RETRY_WHEN_GPRS_MS * 2 ^ length rs) (unat MAX_WIFI_RETRY_WHEN_GPRS_MS)"
      by simp
  qed
  have c9: "\<not> switch_back_due r (handleNetworkConnection_reconnect r s) \<longrightarrow>
      switch_back_delay (handleNetworkConnection r s) = switch_back_delay s"
    by (simp add: round_delays)
  have c10: "unat INITIAL_RETRY_DELAY_MS \<le> unat (reconnect_delay s)
       \<and> unat (reconnect_delay s) \<le> unat MAX_RETRY_DELAY_MS \<longrightarrow>
      unat INITIAL_RETRY_DELAY_MS \<le> unat (reconnect_delay (handleNetworkConnection r s))
      \<and> unat (reconnect_delay (handleNetworkConnection r s)) \<le> unat MAX_RETRY_DELAY_MS"
    using reconnect_delay_bounds [of s r] by (intro impI) (elim conjE)
  have c11: "unat WIFI_RETRY_WHEN_GPRS_MS \<le> unat (switch_back_delay s)
       \<and> unat (switch_back_delay s) \<le> unat MAX_WIFI_RETRY_WHEN_GPRS_MS \<longrightarrow>
      unat WIFI_RETRY_WHEN_GPRS_MS \<le> unat (switch_back_delay (handleNetworkConnection r s))
      \<and> unat (switch_back_delay (handleNetworkConnection r s))
           \<le> unat MAX_WIFI_RETRY_WHEN_GPRS_MS"
    using switch_back_delay_bounds [of s r] by (intro impI) (elim conjE)
  show ?thesis by (intro conjI c1 c2 c3 c4 c5 c6 c7 c8 c9 c10 c11)
qed

lemmas facade_eval_defs = facade_both_def example_defs round_at_def
  reconnect_fails_def reconnect_due_def reconnect_ok_def
  switch_back_fails_def switch_back_due_def switch_ok_def
  handleNetworkConnection_def handleNetworkConnection_reconnect_def
  handleNetworkConnection_switch_back_def
  NetworkFacade_isConnected_def NetworkFacade_connect_def switchToWiFi_def getPreference_def
  currentInterface_is_GPRSManager_def determineActiveInterface_def
  wm_connect_def gm_connect_def wm_isConnected_def gm_isConnected_def
  wm_disconnect_if_connected_def gm_disconnect_if_connected_def
  WiFiManager_connect_def connectWiFi_def connectWiFi_loop.simps MAX_CONNECT_RETRIES_def
  WiFiManager_isConnected_def WiFiManager_disconnect_def
  GPRSManager_isConnected_def GPRSManager_connect_def GPRSManager_disconnect_def
  transitionToState_def never_associates_def associates_at_once_def
  DeviceState_init_def INITIAL_RETRY_DELAY_MS_def MAX_RETRY_DELAY_MS_def
  WIFI_RETRY_WHEN_GPRS_MS_def MAX_WIFI_RETRY_WHEN_GPRS_MS_def Let_def

lemma wifi_only_run_fails_twice:
  "consecutive_reconnect_failures [round_at 15000, round_at 45000] globals_wifi_only"
  by (simp add: globals_wifi_only_def facade_eval_defs)

lemma on_gprs_run_fails_twice:
  "consecutive_switch_back_failures [round_at 900000, round_at 2700000] globals_on_gprs"
  by (simp add: globals_on_gprs_def facade_eval_defs)

theorem backoff_doubles_and_resets_witness:
  "unat (reconnect_delay
      (handleNetworkConnection_rounds [round_at 15000, round_at 45000] globals_wifi_only)) = 60000
   \<and> unat (switch_back_delay
      (handleNetworkConnection_rounds [round_at 900000, round_at 2700000] globals_on_gprs)) = 3600000"
proof -
  have i: "reconnect_delay globals_wifi_only = INITIAL_RETRY_DELAY_MS"
    "switch_back_delay globals_on_gprs = WIFI_RETRY_WHEN_GPRS_MS"
    by (simp_all add: globals_wifi_only_def globals_on_gprs_def DeviceState_init_def)
  from backoff_doubles_and_resets
         [of "round_at 15000" globals_wifi_only "[round_at 15000, round_at 45000]"]
       wifi_only_run_fails_twice i(1)
  have a: "unat (reconnect_delay
      (handleNetworkConnection_rounds [round_at 15000, round_at 45000] globals_wifi_only))
       = min (unat INITIAL_RETRY_DELAY_MS * 2 ^ length [round_at 15000, round_at 45000])
           (unat MAX_RETRY_DELAY_MS)" by blast
  from backoff_doubles_and_resets
         [of "round_at 15000" globals_on_gprs "[round_at 900000, round_at 2700000]"]
       on_gprs_run_fails_twice i(2)
  have b: "unat (switch_back_delay
      (handleNetworkConnection_rounds [round_at 900000, round_at 2700000] globals_on_gprs))
       = min (unat WIFI_RETRY_WHEN_GPRS_MS * 2 ^ length [round_at 900000, round_at 2700000])
           (unat MAX_WIFI_RETRY_WHEN_GPRS_MS)" by blast
  show ?thesis unfolding a b
    by (simp add: INITIAL_RETRY_DELAY_MS_def MAX_RETRY_DELAY_MS_def WIFI_RETRY_WHEN_GPRS_MS_def
        MAX_WIFI_RETRY_WHEN_GPRS_MS_def)
qed


end
